theory Spec2Isabelle
  imports Main "HOL-Library.Word" "HOL-Library.AList" "HOL-Library.Char_ord" "HOL-Library.List_Lexorder"
begin

section \<open>Basic types\<close>

type_synonym byte = "8 word"
type_synonym uint32 = "32 word"
type_synonym uint64 = "64 word"
type_synonym int16 = "16 word"

text \<open>
  Go errors as values. The sentinel errors are the ones the sources name; \<open>ErrorsNew\<close> and
  \<open>Errorf\<close> carry the message of \<open>errors.New\<close> and \<open>fmt.Errorf\<close>, \<open>ErrorfWrap\<close> is
  \<open>fmt.Errorf\<close> with a wrapped error (\<open>%w\<close>), \<open>EOF\<close> is \<open>io.EOF\<close> and \<open>OSError\<close> stands for
  an error reported by the operating system or by a library reader.
\<close>

datatype error =
    ErrNotEnoughBytesRead
  | ErrUnsupportedFile
  | ErrNoPCLNTab
  | ErrSectionDoesNotExist
  | ErrSymbolNotFound
  | ErrInvalidGoVersion
  | EOF
  | OSError string
  | ErrorsNew string
  | Errorf string
  | ErrorfWrap string error

text \<open>
  A Go call either returns or panics. Functions of the sources that cannot panic return a
  plain value; the others return an \<open>outcome\<close>.
\<close>

datatype 'a outcome = Return 'a | Panic string

section \<open>The PE container reader\<close>

text \<open>
  The fields of \<open>pe.Section\<close> the sources read, with the result of \<open>sec.Data()\<close> as a field:
  the bytes of the section, or the error of the read.
\<close>

record Section =
  Section_Name :: string
  Section_VirtualAddress :: uint32
  Section_Size :: uint32
  Section_Offset :: uint32
  Section_Data :: "error + byte list"

text \<open>\<open>pe.Symbol\<close>: a COFF symbol as the parser delivers it.\<close>

record Symbol =
  Symbol_Name :: string
  Symbol_Value :: uint32
  Symbol_SectionNumber :: int16

text \<open>The \<open>symbol\<close> of the sources: a normalized symbol with its synthesized size.\<close>

record symbol =
  symbol_Name :: string
  symbol_Value :: uint64
  symbol_Size :: uint64

text \<open>
  Modelled from the spec: \<open>symbolTableOnce\<close> is declared in another file of the repository; the
  spec describes it as a one-shot gate holding the memoized table and the sticky error.
  \<open>symtab_done\<close> is the state of the gate (a \<open>sync.Once\<close>); the table is a Go map, kept
  here as an association list with one entry per key.
\<close>

record symbolTableOnce =
  symtab_done :: bool
  symtab_table :: "(string \<times> symbol) list"
  symtab_err :: "error option"

definition newSymbolTableOnce :: symbolTableOnce where
  "newSymbolTableOnce = \<lparr>symtab_done = False, symtab_table = [], symtab_err = None\<rparr>"

text \<open>
  Modelled from the spec: \<open>pclntabOnce\<close> is declared in another file of the repository; the
  spec describes it as a one-shot gate. It holds the result of the one run, once that has
  happened.
\<close>

record pclntabOnce =
  pcln_result :: "(error + (uint64 \<times> byte list)) option"

definition newPclnTabOnce :: pclntabOnce where
  "newPclnTabOnce = \<lparr>pcln_result = None\<rparr>"

text \<open>
  An \<open>*os.File\<close> as \<open>os.Open\<close> delivers it: the contents of the file and the result of
  seeking to its start.
\<close>

record osFile =
  osFile_contents :: "byte list"
  osFile_Seek :: "error option"

text \<open>\<open>pe.File\<close>: the parsed file, as far as the sources read it.\<close>

datatype OptionalHeader = OptionalHeader32 uint32 | OptionalHeader64 uint64 | NoOptionalHeader

record pe_File =
  File_Machine :: "16 word"
  File_Sections :: "Section list"
  File_Symbols :: "Symbol list"
  File_OptionalHeader :: OptionalHeader

text \<open>
  The log of a \<open>peFile\<close> is not a field of the source: it records each run of the
  symbol-table normalization and of the search for the line table, so that they can be
  counted.
\<close>

datatype peCall = CallNormalizeSymbols | CallGetPCLNTABDataImpl

record peFile =
  peFile_file :: pe_File
  peFile_osFile :: osFile
  peFile_imageBase :: uint64
  peFile_pcln :: pclntabOnce
  peFile_symtab :: symbolTableOnce
  peFile_log :: "peCall list"

text \<open>\<open>(*pe.File).Section\<close>: the first section with the given name, or nil.\<close>

definition File_Section :: "pe_File \<Rightarrow> string \<Rightarrow> Section option" where
  "File_Section f name = find (\<lambda>s. Section_Name s = name) (File_Sections f)"

subsection \<open>getSectionDataFromAddress\<close>

text \<open>
  The loop over \<open>p.file.Sections\<close>. The upper bound adds \<open>VirtualAddress\<close> and \<open>Size\<close>
  as 32-bit values before widening, as the source does.
\<close>

fun sectionDataLoop :: "uint64 \<Rightarrow> Section list \<Rightarrow> uint64 \<Rightarrow> error + (uint64 \<times> byte list)" where
  "sectionDataLoop ib [] address = Inl ErrSectionDoesNotExist"
| "sectionDataLoop ib (section # rest) address =
     (if Section_Offset section = 0 then sectionDataLoop ib rest address
      else if ib + ucast (Section_VirtualAddress section) \<le> address
              \<and> address < ib + ucast (Section_VirtualAddress section + Section_Size section)
      then (case Section_Data section of
              Inl err \<Rightarrow> Inl err
            | Inr data \<Rightarrow> Inr (ib + ucast (Section_VirtualAddress section), data))
      else sectionDataLoop ib rest address)"

definition peFile_getSectionDataFromAddress :: "peFile \<Rightarrow> uint64 \<Rightarrow> error + (uint64 \<times> byte list)" where
  "peFile_getSectionDataFromAddress p address =
     sectionDataLoop (peFile_imageBase p) (File_Sections (peFile_file p)) address"

text \<open>The test the loop applies to a section, as a predicate.\<close>

definition inSection :: "uint64 \<Rightarrow> Section \<Rightarrow> uint64 \<Rightarrow> bool" where
  "inSection ib s a =
     (Section_Offset s \<noteq> 0 \<and> ib + ucast (Section_VirtualAddress s) \<le> a
      \<and> a < ib + ucast (Section_VirtualAddress s + Section_Size s))"

subsection \<open>FileInfo\<close>

datatype ByteOrder = LittleEndian | BigEndian

datatype GoVersion = GoVersion string

record FileInfo =
  FileInfo_Arch :: string
  FileInfo_OS :: string
  FileInfo_ByteOrder :: ByteOrder
  FileInfo_WordSize :: int
  FileInfo_goversion :: "GoVersion option"

definition ArchAMD64 :: string where "ArchAMD64 = ''amd64''"
definition Arch386 :: string where "Arch386 = ''i386''"

text \<open>
  Modelled from the spec: \<open>intSize32\<close> and \<open>intSize64\<close> are declared in another file of the
  repository; the spec gives the machine word size as 4 or 8.
\<close>

definition intSize32 :: int where "intSize32 = 4"
definition intSize64 :: int where "intSize64 = 8"

definition IMAGE_FILE_MACHINE_I386 :: "16 word" where "IMAGE_FILE_MACHINE_I386 = 0x14c"

definition peFile_getFileInfo :: "peFile \<Rightarrow> FileInfo" where
  "peFile_getFileInfo p =
     (let fi = \<lparr>FileInfo_Arch = [], FileInfo_OS = ''windows'', FileInfo_ByteOrder = LittleEndian,
                FileInfo_WordSize = 0, FileInfo_goversion = None\<rparr>
      in if File_Machine (peFile_file p) = IMAGE_FILE_MACHINE_I386
         then fi\<lparr>FileInfo_WordSize := intSize32, FileInfo_Arch := Arch386\<rparr>
         else fi\<lparr>FileInfo_WordSize := intSize64, FileInfo_Arch := ArchAMD64\<rparr>)"

subsection \<open>initSymTab\<close>

definition NUndef :: int where "NUndef = 0"
definition NAbs :: int where "NAbs = - 1"
definition NDebug :: int where "NDebug = - 2"

text \<open>
  The first loop of \<open>initSymTab\<close>, over \<open>p.file.Symbols\<close>, with the two slices it fills.
  The early \<open>return\<close> on an invalid section number leaves the loop with the error.
  \<open>SectionNumber\<close> is an \<open>int16\<close>, read with \<open>sint\<close>.
\<close>

fun symLoop :: "uint64 \<Rightarrow> Section list \<Rightarrow> Symbol list \<Rightarrow> symbol list \<Rightarrow> uint64 list
                 \<Rightarrow> error + (symbol list \<times> uint64 list)" where
  "symLoop ib sects [] syms addrs = Inr (syms, addrs)"
| "symLoop ib sects (s # rest) syms addrs =
     (let smb = \<lparr>symbol_Name = Symbol_Name s, symbol_Value = ucast (Symbol_Value s), symbol_Size = 0\<rparr>;
          n = sint (Symbol_SectionNumber s)
      in if n = NUndef \<or> n = NAbs \<or> n = NDebug
         then symLoop ib sects rest (syms @ [smb]) (addrs @ [symbol_Value smb])
         else if n < 0 \<or> int (length sects) < n
         then Inl (Errorf ''invalid section number in symbol table'')
         else let sect = sects ! nat (n - 1);
                  smb' = smb\<lparr>symbol_Value := symbol_Value smb + (ib + ucast (Section_VirtualAddress sect))\<rparr>
              in symLoop ib sects rest (syms @ [smb']) (addrs @ [symbol_Value smb']))"

text \<open>
  The second loop: \<open>sort.Search\<close> on the sorted addresses finds the first address greater
  than the symbol's value; the size is the distance to it, and stays 0 when there is none.
\<close>

definition symSize :: "uint64 list \<Rightarrow> symbol \<Rightarrow> symbol" where
  "symSize addrs sy =
     (case find (\<lambda>a. symbol_Value sy < a) addrs of
        None \<Rightarrow> sy
      | Some a \<Rightarrow> sy\<lparr>symbol_Size := a - symbol_Value sy\<rparr>)"

definition initSymTab_body :: "peFile \<Rightarrow> symbolTableOnce \<Rightarrow> symbolTableOnce" where
  "initSymTab_body p st =
     (case symLoop (peFile_imageBase p) (File_Sections (peFile_file p)) (File_Symbols (peFile_file p)) [] [] of
        Inl err \<Rightarrow> st\<lparr>symtab_err := Some err\<rparr>
      | Inr (syms, addrs) \<Rightarrow>
          let addrs' = sort addrs;
              syms' = map (symSize addrs') syms
          in st\<lparr>symtab_table := fold (\<lambda>smb t. AList.update (symbol_Name smb) smb t) syms' (symtab_table st)\<rparr>)"

text \<open>
  \<open>p.symtab.Do(f)\<close> runs \<open>f\<close> on the first call only; the run is entered in the log.
\<close>

definition initSymTab :: "peFile \<Rightarrow> error option \<times> peFile" where
  "initSymTab p =
     (let st = peFile_symtab p
      in if symtab_done st then (symtab_err st, p)
         else let st' = (initSymTab_body p st)\<lparr>symtab_done := True\<rparr>
              in (symtab_err st',
                  p\<lparr>peFile_symtab := st',
                    peFile_log := peFile_log p @ [CallNormalizeSymbols]\<rparr>))"

definition peFile_hasSymbolTable :: "peFile \<Rightarrow> (error + bool) \<times> peFile" where
  "peFile_hasSymbolTable p =
     (case initSymTab p of
        (Some err, p') \<Rightarrow> (Inl err, p')
      | (None, p') \<Rightarrow> (Inr (length (symtab_table (peFile_symtab p')) > 0), p'))"

definition peFile_getSymbol :: "peFile \<Rightarrow> string \<Rightarrow> (error + (uint64 \<times> uint64)) \<times> peFile" where
  "peFile_getSymbol p name =
     (case initSymTab p of
        (Some err, p') \<Rightarrow> (Inl err, p')
      | (None, p') \<Rightarrow>
          (case map_of (symtab_table (peFile_symtab p')) name of
             None \<Rightarrow> (Inl ErrSymbolNotFound, p')
           | Some smb \<Rightarrow> (Inr (symbol_Value smb, symbol_Size smb), p')))"

text \<open>
  The test of the first loop for a section number that is none of the three special ones
  and is out of range, as a predicate on a symbol.
\<close>

definition invalidSectionNumber :: "Section list \<Rightarrow> Symbol \<Rightarrow> bool" where
  "invalidSectionNumber sects s =
     (let n = sint (Symbol_SectionNumber s)
      in n \<noteq> NUndef \<and> n \<noteq> NAbs \<and> n \<noteq> NDebug \<and> (n < 0 \<or> int (length sects) < n))"

subsection \<open>searchForPCLNTab\<close>

text \<open>
  \<open>searchSectionForTab\<close> is defined in another file of the repository and is a parameter
  here: it receives the bytes of a section and the byte order and returns the table found
  in them, or an error. The address is computed in \<open>uint32\<close> from the lengths, as the
  source does.
\<close>

fun searchLoop :: "(byte list \<Rightarrow> ByteOrder \<Rightarrow> error + byte list) \<Rightarrow> peFile \<Rightarrow> string list
                    \<Rightarrow> error + (uint32 \<times> byte list)" where
  "searchLoop searchSectionForTab p [] = Inl ErrNoPCLNTab"
| "searchLoop searchSectionForTab p (s # rest) =
     (case File_Section (peFile_file p) s of
        None \<Rightarrow> searchLoop searchSectionForTab p rest
      | Some sec \<Rightarrow>
          (case Section_Data sec of
             Inl err \<Rightarrow> Inl err
           | Inr secData \<Rightarrow>
               (case searchSectionForTab secData (FileInfo_ByteOrder (peFile_getFileInfo p)) of
                  Inl err \<Rightarrow> searchLoop searchSectionForTab p rest
                | Inr tab \<Rightarrow>
                    Inr (Section_VirtualAddress sec + word_of_int (int (length secData) - int (length tab)),
                         tab))))"

definition searchForPCLNTab :: "(byte list \<Rightarrow> ByteOrder \<Rightarrow> error + byte list) \<Rightarrow> peFile
                                 \<Rightarrow> error + (uint32 \<times> byte list)" where
  "searchForPCLNTab searchSectionForTab p = searchLoop searchSectionForTab p [''.rdata'', ''.text'']"

definition getPCLNTABDataImpl :: "(byte list \<Rightarrow> ByteOrder \<Rightarrow> error + byte list) \<Rightarrow> peFile
                                   \<Rightarrow> error + (uint64 \<times> byte list)" where
  "getPCLNTABDataImpl searchSectionForTab p =
     (case searchForPCLNTab searchSectionForTab p of
        Inl err \<Rightarrow> Inl err
      | Inr (start, data) \<Rightarrow> Inr (peFile_imageBase p + ucast start, data))"

text \<open>
  What the scan meets in the section of a given name: a table that \<open>searchSectionForTab\<close>
  finds in its data; no table, the section being absent or its data holding none; data
  that cannot be read. \<open>tabAddress\<close> is the address \<open>getPCLNTABDataImpl\<close> computes for
  the table \<open>tab\<close> found in the data \<open>d\<close> of the section \<open>sec\<close>.
\<close>

definition yieldsHeader :: "(byte list \<Rightarrow> ByteOrder \<Rightarrow> error + byte list) \<Rightarrow> peFile \<Rightarrow> string
                             \<Rightarrow> Section \<Rightarrow> byte list \<Rightarrow> byte list \<Rightarrow> bool" where
  "yieldsHeader sst p name sec d tab =
     (File_Section (peFile_file p) name = Some sec \<and> Section_Data sec = Inr d
      \<and> sst d LittleEndian = Inr tab)"

definition yieldsNoHeader :: "(byte list \<Rightarrow> ByteOrder \<Rightarrow> error + byte list) \<Rightarrow> peFile \<Rightarrow> string
                               \<Rightarrow> bool" where
  "yieldsNoHeader sst p name =
     (case File_Section (peFile_file p) name of
        None \<Rightarrow> True
      | Some sec \<Rightarrow>
          (case Section_Data sec of
             Inl err \<Rightarrow> False
           | Inr d \<Rightarrow> (case sst d LittleEndian of Inl err \<Rightarrow> True | Inr tab \<Rightarrow> False)))"

definition unreadable :: "peFile \<Rightarrow> string \<Rightarrow> error \<Rightarrow> bool" where
  "unreadable p name e =
     (case File_Section (peFile_file p) name of
        None \<Rightarrow> False
      | Some sec \<Rightarrow> Section_Data sec = Inl e)"

definition tabAddress :: "peFile \<Rightarrow> Section \<Rightarrow> byte list \<Rightarrow> byte list \<Rightarrow> uint64" where
  "tabAddress p sec d tab =
     peFile_imageBase p
     + ucast (Section_VirtualAddress sec + word_of_int (int (length d) - int (length tab)))"

text \<open>
  Modelled from the spec: \<open>searchSectionForTab\<close> is defined in another file of the
  repository. The spec describes the header as a 4-byte magic followed by two zero bytes,
  then the quantum and the pointer size, each a power of two up to 8, and the scan as
  returning the tail of the section that begins at the magic. The known magics are a
  parameter; this scan returns the first such tail.
\<close>

definition validHeader :: "byte list list \<Rightarrow> byte list \<Rightarrow> bool" where
  "validHeader magics d =
     (8 \<le> length d \<and> take 4 d \<in> set magics \<and> d ! 4 = 0 \<and> d ! 5 = 0
      \<and> d ! 6 \<in> {1, 2, 4, 8} \<and> d ! 7 \<in> {1, 2, 4, 8})"

fun scanForTab :: "byte list list \<Rightarrow> byte list \<Rightarrow> error + byte list" where
  "scanForTab magics [] = Inl ErrNoPCLNTab"
| "scanForTab magics (b # bs) =
     (if validHeader magics (b # bs) then Inr (b # bs) else scanForTab magics bs)"

subsection \<open>Sections by name\<close>

definition peFile_getCodeSection :: "peFile \<Rightarrow> error + (uint64 \<times> byte list)" where
  "peFile_getCodeSection p =
     (case File_Section (peFile_file p) ''.text'' of
        None \<Rightarrow> Inl ErrSectionDoesNotExist
      | Some sec \<Rightarrow>
          (case Section_Data sec of
             Inl err \<Rightarrow> Inl err
           | Inr data \<Rightarrow> Inr (peFile_imageBase p + ucast (Section_VirtualAddress sec), data)))"

subsection \<open>openPE\<close>

text \<open>
  \<open>recover\<close> returns the value of the panic only when it is called directly by a deferred
  function of a panicking goroutine; in every other call it returns nil and has no effect.
\<close>

definition recover :: "bool \<Rightarrow> string option \<Rightarrow> string option" where
  "recover calledByDeferred panicking = (if calledByDeferred then panicking else None)"

text \<open>
  The function literal of \<open>openPE\<close> that calls \<open>recover\<close> is started with \<open>go\<close>: it runs
  in a goroutine of its own, which is not panicking, and not as a deferred call. It
  overwrites the named result \<open>err\<close> when its \<open>recover\<close> returns a value.
\<close>

definition openPE_goroutine :: "error option \<Rightarrow> error option" where
  "openPE_goroutine err =
     (case recover False None of
        None \<Rightarrow> err
      | Some r \<Rightarrow> Some (Errorf (''error when processing PE file, probably corrupt: '' @ r)))"

text \<open>
  The statements of \<open>openPE\<close> after the \<open>go\<close> statement, with \<open>os.Open\<close> and the parser
  \<open>pe.NewFile\<close> as parameters; the parser may panic.
\<close>

definition openPE_body :: "(string \<Rightarrow> error + osFile) \<Rightarrow> (osFile \<Rightarrow> (error + pe_File) outcome) \<Rightarrow> string
                            \<Rightarrow> (error + peFile) outcome" where
  "openPE_body os_Open pe_NewFile fp =
     (case os_Open fp of
        Inl err \<Rightarrow> Return (Inl (ErrorfWrap ''error when opening the file: '' err))
      | Inr osFile \<Rightarrow>
          (case pe_NewFile osFile of
             Panic r \<Rightarrow> Panic r
           | Return (Inl err) \<Rightarrow> Return (Inl (ErrorfWrap ''error when parsing the PE file: '' err))
           | Return (Inr f) \<Rightarrow>
               (case File_OptionalHeader f of
                  OptionalHeader32 hdr \<Rightarrow>
                    Return (Inr \<lparr>peFile_file = f, peFile_osFile = osFile,
                                 peFile_imageBase = ucast hdr, peFile_pcln = newPclnTabOnce,
                                 peFile_symtab = newSymbolTableOnce, peFile_log = []\<rparr>)
                | OptionalHeader64 hdr \<Rightarrow>
                    Return (Inr \<lparr>peFile_file = f, peFile_osFile = osFile,
                                 peFile_imageBase = hdr, peFile_pcln = newPclnTabOnce,
                                 peFile_symtab = newSymbolTableOnce, peFile_log = []\<rparr>)
                | NoOptionalHeader \<Rightarrow> Return (Inl (ErrorsNew ''unknown optional header type'')))))"

text \<open>
  \<open>openPE\<close>: no deferred function exists, so a panic of the body leaves \<open>openPE\<close> as a
  panic; when the body returns, the result is its own unless the goroutine has set \<open>err\<close>.
\<close>

definition openPE :: "(string \<Rightarrow> error + osFile) \<Rightarrow> (osFile \<Rightarrow> (error + pe_File) outcome) \<Rightarrow> string
                       \<Rightarrow> (error + peFile) outcome" where
  "openPE os_Open pe_NewFile fp =
     (case openPE_body os_Open pe_NewFile fp of
        Panic r \<Rightarrow> Panic r
      | Return res \<Rightarrow>
          (case openPE_goroutine (case res of Inl err \<Rightarrow> Some err | Inr peF \<Rightarrow> None) of
             None \<Rightarrow> Return res
           | Some err \<Rightarrow> Return (Inl err)))"

section \<open>Strings and paths of the Go library\<close>

text \<open>
  The functions of \<open>strings\<close> and \<open>path\<close> the sources call, following the documentation
  of the Go library. Strings are byte sequences.
\<close>

definition HasPrefix :: "string \<Rightarrow> string \<Rightarrow> bool" where
  "HasPrefix s pre = (take (length pre) s = pre)"

fun Contains :: "string \<Rightarrow> string \<Rightarrow> bool" where
  "Contains [] substr = (substr = [])"
| "Contains (c # cs) substr = (HasPrefix (c # cs) substr \<or> Contains cs substr)"

text \<open>\<open>strings.Split(s, sep)[0]\<close> for a non-empty \<open>sep\<close>: the part of \<open>s\<close> before the
  first occurrence of \<open>sep\<close>, all of \<open>s\<close> when there is none.\<close>

fun SplitHead :: "string \<Rightarrow> string \<Rightarrow> string" where
  "SplitHead [] sep = []"
| "SplitHead (c # cs) sep = (if HasPrefix (c # cs) sep then [] else c # SplitHead cs sep)"

text \<open>The elements of a path between its slashes.\<close>

fun pathElements :: "string \<Rightarrow> string list" where
  "pathElements [] = [[]]"
| "pathElements (c # cs) =
     (if c = CHR ''/'' then [] # pathElements cs
      else (case pathElements cs of [] \<Rightarrow> [[c]] | x # xs \<Rightarrow> (c # x) # xs))"

fun joinElements :: "string list \<Rightarrow> string" where
  "joinElements [] = []"
| "joinElements [x] = x"
| "joinElements (x # y # ys) = x @ ''/'' @ joinElements (y # ys)"

text \<open>
  \<open>path.Clean\<close>: empty elements and \<open>.\<close> are dropped; \<open>..\<close> removes the element before
  it when that is a real element, is dropped at the start of a rooted path, and is kept
  otherwise. The stack holds the elements kept so far, the last one first.
\<close>

definition cleanStep :: "bool \<Rightarrow> string list \<Rightarrow> string \<Rightarrow> string list" where
  "cleanStep rooted st c =
     (if c = [] \<or> c = ''.'' then st
      else if c = ''..''
      then (case st of
              [] \<Rightarrow> (if rooted then [] else [''..''])
            | t # ts \<Rightarrow> (if t = ''..'' then ''..'' # st else ts))
      else c # st)"

definition pathClean :: "string \<Rightarrow> string" where
  "pathClean p =
     (if p = [] then ''.''
      else let rooted = (hd p = CHR ''/'');
               out = joinElements (rev (foldl (cleanStep rooted) [] (pathElements p)))
           in if rooted then CHR ''/'' # out
              else if out = [] then ''.'' else out)"

text \<open>\<open>path.Dir\<close>: the path up to and including its last slash, cleaned.\<close>

definition pathDir :: "string \<Rightarrow> string" where
  "pathDir p = pathClean (take (length p - length (takeWhile (\<lambda>c. c \<noteq> CHR ''/'') (rev p))) p)"

text \<open>\<open>path.Base\<close>: the last element of the path, after removing trailing slashes.\<close>

definition pathBase :: "string \<Rightarrow> string" where
  "pathBase p =
     (if p = [] then ''.''
      else let p1 = rev (dropWhile (\<lambda>c. c = CHR ''/'') (rev p));
               p2 = rev (takeWhile (\<lambda>c. c \<noteq> CHR ''/'') (rev p1))
           in if p2 = [] then ''/'' else p2)"

section \<open>Packages and their classification\<close>

record Function =
  Function_Name :: string
  Function_Offset :: uint64
  Function_End :: uint64
  Function_PackageName :: string

record Method =
  Method_Function :: Function
  Method_Receiver :: string

record Package =
  Package_Name :: string
  Package_Filepath :: string
  Package_Functions :: "Function list"
  Package_Methods :: "Method list"

datatype PackageClass = ClassUnknown | ClassSTD | ClassMain | ClassVendor | ClassGenerated

definition knownRepos :: "string list" where
  "knownRepos = [''golang.org'', ''github.com'', ''gitlab.com'']"

text \<open>
  The table \<open>stdPkgs\<close> of standard library packages is generated outside the given
  sources; it is the parameter \<open>stdPkgs\<close>, the test of membership in it.
\<close>

function IsStandardLibrary :: "(string \<Rightarrow> bool) \<Rightarrow> string \<Rightarrow> bool" where
  "IsStandardLibrary stdPkgs pkg =
     (if stdPkgs pkg then True
      else let tmp = SplitHead pkg ''.''
           in if length tmp < length pkg
              then (if IsStandardLibrary stdPkgs tmp then True else False)
              else False)"
  by pat_completeness auto
termination
  by (relation "measure (\<lambda>(stdPkgs, pkg). length pkg)") auto

definition isGeneratedPackage :: "Package \<Rightarrow> bool" where
  "isGeneratedPackage pkg =
     (if Package_Filepath pkg = ''<autogenerated>'' then True
      else if Package_Name pkg = [] \<and> Package_Filepath pkg = [] then True
      else if Package_Filepath pkg = [] \<and> (Package_Name pkg = ''__x86'' \<or> Package_Name pkg = ''__i686'')
      then True
      else False)"

record PathPackageClassifier =
  mainFilepath :: string
  mainFolders :: "string list"

definition NewPathPackageClassifier :: "string \<Rightarrow> PathPackageClassifier" where
  "NewPathPackageClassifier mainPkgFilepath =
     \<lparr>mainFilepath = mainPkgFilepath,
      mainFolders = [pathDir mainPkgFilepath, pathClean mainPkgFilepath]\<rparr>"

definition PathPackageClassifier_Classify ::
    "(string \<Rightarrow> bool) \<Rightarrow> PathPackageClassifier \<Rightarrow> Package \<Rightarrow> PackageClass" where
  "PathPackageClassifier_Classify stdPkgs c pkg =
     (if Package_Name pkg = ''type'' \<or> HasPrefix (Package_Name pkg) ''type..'' then ClassGenerated
      else if IsStandardLibrary stdPkgs (Package_Name pkg) then ClassSTD
      else if isGeneratedPackage pkg then ClassGenerated
      else if length (SplitHead (Package_Name pkg) ''/golang.org'') < length (Package_Name pkg)
              \<and> IsStandardLibrary stdPkgs (SplitHead (Package_Name pkg) ''/golang.org'')
      then ClassSTD
      else if HasPrefix (Package_Name pkg) ''_cgo_'' \<or> HasPrefix (Package_Name pkg) ''x_cgo_''
      then ClassSTD
      else if Contains (Package_Filepath pkg) ''@v'' then ClassVendor
      else let parentFolder = pathDir (Package_Filepath pkg) in
           if HasPrefix (Package_Filepath pkg) (mainFilepath c @ ''/vendor/'')
              \<or> HasPrefix (Package_Filepath pkg) (pathDir (mainFilepath c) @ ''/vendor/'')
              \<or> HasPrefix (Package_Filepath pkg) (pathDir (pathDir (mainFilepath c)) @ ''/vendor/'')
           then ClassVendor
           else if list_ex (\<lambda>folder. parentFolder = folder) (mainFolders c) then ClassMain
           else if HasPrefix (Package_Name pkg) ''vendor/'' then ClassVendor
           else if list_ex (\<lambda>url. HasPrefix (Package_Name pkg) url \<and> Contains (Package_Filepath pkg) url)
                     knownRepos
           then ClassVendor
           else if \<not> Contains (Package_Filepath pkg) ''vendor/''
                   \<and> pathBase (pathDir (Package_Filepath pkg)) = pathBase (mainFilepath c)
           then ClassMain
           else if Package_Name pkg = [] \<and> pathBase (Package_Filepath pkg) = ''runtime'' then ClassSTD
           else if HasPrefix (Package_Filepath pkg) (mainFilepath c) then ClassMain
           else if Package_Name pkg \<noteq> []
                   \<and> (\<not> Contains (Package_Name pkg) ''/'' \<and> Contains (mainFilepath c) (Package_Name pkg))
           then ClassMain
           else if mainFilepath c = ''command-line-arguments'' then ClassMain
           else ClassUnknown)"

text \<open>
  The conditions of the branches of \<open>Classify\<close> that come before the loop over the main
  folders.
\<close>

definition earlierRule :: "(string \<Rightarrow> bool) \<Rightarrow> PathPackageClassifier \<Rightarrow> Package \<Rightarrow> bool" where
  "earlierRule std c pkg =
     (Package_Name pkg = ''type'' \<or> HasPrefix (Package_Name pkg) ''type..''
      \<or> IsStandardLibrary std (Package_Name pkg)
      \<or> isGeneratedPackage pkg
      \<or> (length (SplitHead (Package_Name pkg) ''/golang.org'') < length (Package_Name pkg)
          \<and> IsStandardLibrary std (SplitHead (Package_Name pkg) ''/golang.org''))
      \<or> HasPrefix (Package_Name pkg) ''_cgo_'' \<or> HasPrefix (Package_Name pkg) ''x_cgo_''
      \<or> Contains (Package_Filepath pkg) ''@v''
      \<or> HasPrefix (Package_Filepath pkg) (mainFilepath c @ ''/vendor/'')
      \<or> HasPrefix (Package_Filepath pkg) (pathDir (mainFilepath c) @ ''/vendor/'')
      \<or> HasPrefix (Package_Filepath pkg) (pathDir (pathDir (mainFilepath c)) @ ''/vendor/''))"

text \<open>\<open>debug.BuildInfo\<close> and its modules, as far as the sources read them.\<close>

record Module =
  Module_Path :: string
  Module_Version :: string

record debug_BuildInfo =
  debug_BuildInfo_Path :: string
  debug_BuildInfo_Main :: Module
  debug_BuildInfo_Deps :: "Module list"

record ModPackageClassifier =
  modInfo :: debug_BuildInfo

definition NewModPackageClassifier :: "debug_BuildInfo \<Rightarrow> ModPackageClassifier" where
  "NewModPackageClassifier buildInfo = \<lparr>modInfo = buildInfo\<rparr>"

definition ModPackageClassifier_Classify ::
    "(string \<Rightarrow> bool) \<Rightarrow> ModPackageClassifier \<Rightarrow> Package \<Rightarrow> PackageClass" where
  "ModPackageClassifier_Classify stdPkgs c pkg =
     (if IsStandardLibrary stdPkgs (Package_Name pkg) then ClassSTD
      else if Package_Name pkg = ''main'' then ClassMain
      else if debug_BuildInfo_Path (modInfo c) \<noteq> []
              \<and> (HasPrefix (Package_Filepath pkg) (debug_BuildInfo_Path (modInfo c))
                 \<or> HasPrefix (Package_Name pkg) (debug_BuildInfo_Path (modInfo c)))
      then ClassMain
      else if Module_Path (debug_BuildInfo_Main (modInfo c)) \<noteq> []
              \<and> (HasPrefix (Package_Filepath pkg) (Module_Path (debug_BuildInfo_Main (modInfo c)))
                 \<or> HasPrefix (Package_Name pkg) (Module_Path (debug_BuildInfo_Main (modInfo c))))
      then ClassMain
      else (case find (\<lambda>dep. HasPrefix (Package_Filepath pkg) (Module_Path dep)
                              \<or> HasPrefix (Package_Name pkg) (Module_Path dep))
                      (debug_BuildInfo_Deps (modInfo c)) of
              Some dep \<Rightarrow> (if Module_Version dep = ''(devel)'' then ClassMain else ClassVendor)
            | None \<Rightarrow>
                if isGeneratedPackage pkg then ClassGenerated
                else if HasPrefix (Package_Name pkg) ''_cgo_'' \<or> HasPrefix (Package_Name pkg) ''x_cgo_''
                then ClassSTD
                else ClassVendor))"

datatype PackageClassifier = PathClassifier PathPackageClassifier | ModClassifier ModPackageClassifier

fun Classify :: "(string \<Rightarrow> bool) \<Rightarrow> PackageClassifier \<Rightarrow> Package \<Rightarrow> PackageClass" where
  "Classify stdPkgs (PathClassifier c) pkg = PathPackageClassifier_Classify stdPkgs c pkg"
| "Classify stdPkgs (ModClassifier c) pkg = ModPackageClassifier_Classify stdPkgs c pkg"

section \<open>GoFile\<close>

subsection \<open>The line table and the file handler\<close>

text \<open>
  \<open>gosym.Func\<close> with the results of the methods \<open>PackageName\<close>, \<open>ReceiverName\<close> and
  \<open>BaseName\<close> of its symbol, and \<open>gosym.Table\<close> with its functions and the file that
  \<open>PCToLine\<close> reports for a program counter.
\<close>

record Func =
  Func_PackageName :: string
  Func_ReceiverName :: string
  Func_BaseName :: string
  Func_Entry :: uint64
  Func_End :: uint64

record Table =
  Table_Funcs :: "Func list"
  Table_PCToLine :: "uint64 \<Rightarrow> string"

text \<open>A method call on a \<open>*gosym.Table\<close> that may be nil: the nil pointer is dereferenced.\<close>

definition PCToLine :: "Table option \<Rightarrow> uint64 \<Rightarrow> string outcome" where
  "PCToLine t pc =
     (case t of
        None \<Rightarrow> Panic ''invalid memory address or nil pointer dereference''
      | Some tab \<Rightarrow> Return (Table_PCToLine tab pc))"

record moduledata =
  moduledata_TextAddr :: uint64

record BuildInfo =
  BuildInfo_Compiler :: "GoVersion option"
  BuildInfo_ModInfo :: "debug_BuildInfo option"

text \<open>
  The interface \<open>fileHandler\<close>, with the methods that are called on it here. A handler
  memoizes what it computes, so each method is the result it gives on every call.
\<close>

record fileHandler =
  getFileInfo :: FileInfo
  getBuildID :: "error + string"
  getPCLNTABData :: "error + (uint64 \<times> byte list)"
  getSectionDataFromAddress :: "uint64 \<Rightarrow> error + (uint64 \<times> byte list)"

text \<open>
  Modelled from the spec: \<open>(*pclntabOnce).load\<close> is declared in another file of the
  repository; as a one-shot gate it runs the implementation it is given on the first call
  and gives the result of that run on every call. The gate is the field \<open>pcln\<close> of the
  \<open>peFile\<close>.
\<close>

definition pclntabOnce_load ::
    "peFile \<Rightarrow> (peFile \<Rightarrow> (error + (uint64 \<times> byte list)) \<times> peFile)
     \<Rightarrow> (error + (uint64 \<times> byte list)) \<times> peFile" where
  "pclntabOnce_load p impl =
     (case pcln_result (peFile_pcln p) of
        Some r \<Rightarrow> (r, p)
      | None \<Rightarrow> (case impl p of (r, p') \<Rightarrow> (r, p'\<lparr>peFile_pcln := \<lparr>pcln_result = Some r\<rparr>\<rparr>)))"

text \<open>A call of \<open>getPCLNTABDataImpl\<close>, entered in the log.\<close>

definition getPCLNTABDataImpl_call ::
    "(byte list \<Rightarrow> ByteOrder \<Rightarrow> error + byte list) \<Rightarrow> peFile
     \<Rightarrow> (error + (uint64 \<times> byte list)) \<times> peFile" where
  "getPCLNTABDataImpl_call searchSectionForTab p =
     (getPCLNTABDataImpl searchSectionForTab p,
      p\<lparr>peFile_log := peFile_log p @ [CallGetPCLNTABDataImpl]\<rparr>)"

text \<open>
  The PE handler, as the interface sees a \<open>peFile\<close>. \<open>parseBuildIDFromRaw\<close> is defined in
  another file of the repository and is a parameter.
\<close>

definition peFile_getBuildID :: "(byte list \<Rightarrow> error + string) \<Rightarrow> peFile \<Rightarrow> error + string" where
  "peFile_getBuildID parseBuildIDFromRaw p =
     (case peFile_getCodeSection p of
        Inl err \<Rightarrow> Inl (ErrorfWrap ''failed to get code section: '' err)
      | Inr (a, data) \<Rightarrow> parseBuildIDFromRaw data)"

definition peFile_getPCLNTABData :: "(byte list \<Rightarrow> ByteOrder \<Rightarrow> error + byte list) \<Rightarrow> peFile
                                      \<Rightarrow> (error + (uint64 \<times> byte list)) \<times> peFile" where
  "peFile_getPCLNTABData searchSectionForTab p =
     pclntabOnce_load p (getPCLNTABDataImpl_call searchSectionForTab)"

definition peHandler :: "(byte list \<Rightarrow> ByteOrder \<Rightarrow> error + byte list) \<Rightarrow> (byte list \<Rightarrow> error + string)
                          \<Rightarrow> peFile \<Rightarrow> fileHandler" where
  "peHandler searchSectionForTab parseBuildIDFromRaw p =
     \<lparr>getFileInfo = peFile_getFileInfo p,
      getBuildID = peFile_getBuildID parseBuildIDFromRaw p,
      getPCLNTABData = fst (peFile_getPCLNTABData searchSectionForTab p),
      getSectionDataFromAddress = peFile_getSectionDataFromAddress p\<rparr>"

subsection \<open>The structure\<close>

text \<open>
  The log is not a field of the source: it records each run of the three expensive
  computations, so that they can be counted.
\<close>

datatype call = CallExtractModuledata | CallNewTable | CallEnumPackages

record GoFile =
  GoFile_BuildInfo :: "BuildInfo option"
  GoFile_FileInfo :: FileInfo
  GoFile_BuildID :: string
  GoFile_fh :: fileHandler
  GoFile_stdPkgs :: "Package list"
  GoFile_generated :: "Package list"
  GoFile_pkgs :: "Package list"
  GoFile_vendors :: "Package list"
  GoFile_unknown :: "Package list"
  GoFile_pclntab :: "Table option"
  GoFile_initPackagesOnce :: bool
  GoFile_initPackagesError :: "error option"
  GoFile_moduledata :: moduledata
  GoFile_versionError :: "error option"
  GoFile_initModuleDataOnce :: bool
  GoFile_initModuleDataError :: "error option"
  GoFile_log :: "call list"

text \<open>\<open>new(GoFile)\<close> with the handler and its file information stored.\<close>

definition newGoFile :: "fileHandler \<Rightarrow> GoFile" where
  "newGoFile h =
     \<lparr>GoFile_BuildInfo = None, GoFile_FileInfo = getFileInfo h, GoFile_BuildID = [],
      GoFile_fh = h, GoFile_stdPkgs = [], GoFile_generated = [], GoFile_pkgs = [],
      GoFile_vendors = [], GoFile_unknown = [], GoFile_pclntab = None,
      GoFile_initPackagesOnce = False, GoFile_initPackagesError = None,
      GoFile_moduledata = \<lparr>moduledata_TextAddr = 0\<rparr>, GoFile_versionError = None,
      GoFile_initModuleDataOnce = False, GoFile_initModuleDataError = None, GoFile_log = []\<rparr>"

text \<open>
  What the code calls from elsewhere: functions of other files of the repository, the
  parsers of the Go library, the operating system, the table of standard library
  packages, and the order in which \<open>range\<close> visits the keys of a map.
\<close>

record world =
  os_Open :: "string \<Rightarrow> error + osFile"
  pe_NewFile :: "osFile \<Rightarrow> (error + pe_File) outcome"
  openELF :: "string \<Rightarrow> (error + fileHandler) outcome"
  openMachO :: "string \<Rightarrow> (error + fileHandler) outcome"
  searchSectionForTab :: "byte list \<Rightarrow> ByteOrder \<Rightarrow> error + byte list"
  parseBuildIDFromRaw :: "byte list \<Rightarrow> error + string"
  extractBuildInfo :: "GoFile \<Rightarrow> error + BuildInfo"
  extractModuledata :: "FileInfo \<Rightarrow> fileHandler \<Rightarrow> moduledata \<times> error option"
  findGoCompilerVersion :: "GoFile \<Rightarrow> error + GoVersion"
  gosym_NewTable :: "byte list \<Rightarrow> uint64 \<Rightarrow> error + Table"
  findSourceLines :: "uint64 \<Rightarrow> uint64 \<Rightarrow> Table \<Rightarrow> int \<times> int"
  stdPkgs :: "string \<Rightarrow> bool"
  rangeOrder :: "string list \<Rightarrow> string list"

subsection \<open>Open\<close>

definition elfMagic :: "byte list" where "elfMagic = [0x7f, 0x45, 0x4c, 0x46]"
definition peMagic :: "byte list" where "peMagic = [0x4d, 0x5a]"
definition maxMagicBufLen :: nat where "maxMagicBufLen = 4"
definition machoMagic1 :: "byte list" where "machoMagic1 = [0xfe, 0xed, 0xfa, 0xce]"
definition machoMagic2 :: "byte list" where "machoMagic2 = [0xfe, 0xed, 0xfa, 0xcf]"
definition machoMagic3 :: "byte list" where "machoMagic3 = [0xce, 0xfa, 0xed, 0xfe]"
definition machoMagic4 :: "byte list" where "machoMagic4 = [0xcf, 0xfa, 0xed, 0xfe]"

definition fileMagicMatch :: "byte list \<Rightarrow> byte list \<Rightarrow> bool" where
  "fileMagicMatch buf magic = (take (length magic) buf = magic)"

text \<open>
  \<open>(*os.File).Read\<close> at the start of a file, into a zeroed buffer of \<open>k\<close> bytes: the
  buffer after the read, the number of bytes read and the error. At the end of the file
  \<open>Read\<close> returns 0 and \<open>io.EOF\<close>.
\<close>

definition File_Read :: "byte list \<Rightarrow> nat \<Rightarrow> byte list \<times> nat \<times> error option" where
  "File_Read contents k =
     (if k = 0 then ([], 0, None)
      else if contents = [] then (replicate k 0, 0, Some EOF)
      else (take k contents @ replicate (k - length contents) 0, min k (length contents), None))"

text \<open>The part of \<open>Open\<close> after the handler has been made.\<close>

definition Open_finish :: "world \<Rightarrow> fileHandler \<Rightarrow> GoFile" where
  "Open_finish w h =
     (let gofile = newGoFile h;
          gofile1 = (case getBuildID (GoFile_fh gofile) of
                       Inr buildID \<Rightarrow> gofile\<lparr>GoFile_BuildID := buildID\<rparr>
                     | Inl err \<Rightarrow> gofile)
      in case extractBuildInfo w gofile1 of
           Inr bi \<Rightarrow>
             (let gofile2 = gofile1\<lparr>GoFile_BuildInfo := Some bi\<rparr>
              in if BuildInfo_Compiler bi \<noteq> None
                 then gofile2\<lparr>GoFile_FileInfo :=
                        (GoFile_FileInfo gofile2)\<lparr>FileInfo_goversion := BuildInfo_Compiler bi\<rparr>\<rparr>
                 else gofile2)
         | Inl err \<Rightarrow> gofile1)"

definition Open_handler :: "world \<Rightarrow> (error + fileHandler) outcome \<Rightarrow> (error + GoFile) outcome" where
  "Open_handler w r =
     (case r of
        Panic v \<Rightarrow> Panic v
      | Return (Inl err) \<Rightarrow> Return (Inl err)
      | Return (Inr h) \<Rightarrow> Return (Inr (Open_finish w h)))"

definition Open_PE :: "world \<Rightarrow> string \<Rightarrow> (error + fileHandler) outcome" where
  "Open_PE w filePath =
     (case openPE (os_Open w) (pe_NewFile w) filePath of
        Panic v \<Rightarrow> Panic v
      | Return (Inl err) \<Rightarrow> Return (Inl err)
      | Return (Inr p) \<Rightarrow> Return (Inr (peHandler (searchSectionForTab w) (parseBuildIDFromRaw w) p)))"

definition Open :: "world \<Rightarrow> string \<Rightarrow> (error + GoFile) outcome" where
  "Open w filePath =
     (case os_Open w filePath of
        Inl err \<Rightarrow> Return (Inl err)
      | Inr f \<Rightarrow>
          (case osFile_Seek f of
             Some err \<Rightarrow> Return (Inl err)
           | None \<Rightarrow>
               (case File_Read (osFile_contents f) maxMagicBufLen of
                  (buf, n, Some err) \<Rightarrow> Return (Inl err)
                | (buf, n, None) \<Rightarrow>
                    if n < maxMagicBufLen then Return (Inl ErrNotEnoughBytesRead)
                    else if fileMagicMatch buf elfMagic then Open_handler w (openELF w filePath)
                    else if fileMagicMatch buf peMagic then Open_handler w (Open_PE w filePath)
                    else if fileMagicMatch buf machoMagic1 \<or> fileMagicMatch buf machoMagic2
                            \<or> fileMagicMatch buf machoMagic3 \<or> fileMagicMatch buf machoMagic4
                    then Open_handler w (openMachO w filePath)
                    else Return (Inl ErrUnsupportedFile))))"

subsection \<open>Compiler version and moduledata\<close>

definition tryExtractCompilerVersion :: "world \<Rightarrow> GoFile \<Rightarrow> GoFile" where
  "tryExtractCompilerVersion w f =
     (if FileInfo_goversion (GoFile_FileInfo f) \<noteq> None then f
      else case findGoCompilerVersion w f of
             Inl err \<Rightarrow> f\<lparr>GoFile_versionError := Some err\<rparr>
           | Inr v \<Rightarrow> f\<lparr>GoFile_FileInfo := (GoFile_FileInfo f)\<lparr>FileInfo_goversion := Some v\<rparr>\<rparr>)"

definition ensureCompilerVersion :: "world \<Rightarrow> GoFile \<Rightarrow> error option \<times> GoFile" where
  "ensureCompilerVersion w f =
     (let f' = (if FileInfo_goversion (GoFile_FileInfo f) = None
                then tryExtractCompilerVersion w f else f)
      in (GoFile_versionError f', f'))"

text \<open>\<open>f.initModuleDataOnce.Do\<close> runs its function on the first call only.\<close>

definition initModuleData_body :: "world \<Rightarrow> GoFile \<Rightarrow> GoFile" where
  "initModuleData_body w f =
     (let f1 = snd (ensureCompilerVersion w f);
          r = extractModuledata w (GoFile_FileInfo f1) (GoFile_fh f1)
      in f1\<lparr>GoFile_moduledata := fst r, GoFile_initModuleDataError := snd r,
             GoFile_log := GoFile_log f1 @ [CallExtractModuledata]\<rparr>)"

definition initModuleData :: "world \<Rightarrow> GoFile \<Rightarrow> error option \<times> GoFile" where
  "initModuleData w f =
     (let f' = (if GoFile_initModuleDataOnce f then f
                else (initModuleData_body w f)\<lparr>GoFile_initModuleDataOnce := True\<rparr>)
      in (GoFile_initModuleDataError f', f'))"

definition Moduledata :: "world \<Rightarrow> GoFile \<Rightarrow> (error + moduledata) \<times> GoFile" where
  "Moduledata w f =
     (case initModuleData w f of
        (Some err, f') \<Rightarrow> (Inl err, f')
      | (None, f') \<Rightarrow> (Inr (GoFile_moduledata f'), f'))"

subsection \<open>PCLNTab\<close>

text \<open>\<open>gosym.NewLineTable\<close> followed by \<open>gosym.NewTable\<close> is the parse of the table.\<close>

definition PCLNTab :: "world \<Rightarrow> GoFile \<Rightarrow> (error + Table) \<times> GoFile" where
  "PCLNTab w f =
     (case initModuleData w f of
        (Some err, f') \<Rightarrow> (Inl err, f')
      | (None, f') \<Rightarrow>
          (case getPCLNTABData (GoFile_fh f') of
             Inl err \<Rightarrow> (Inl err, f')
           | Inr (a, data) \<Rightarrow>
               (gosym_NewTable w data (moduledata_TextAddr (GoFile_moduledata f')),
                f'\<lparr>GoFile_log := GoFile_log f' @ [CallNewTable]\<rparr>)))"

subsection \<open>enumPackages\<close>

text \<open>
  One round of the first loop of \<open>enumPackages\<close>, for the function \<open>n\<close> of the table. The
  map \<open>packages\<close> is an association list in the order of insertion; the pointer stored
  in the map is modelled by writing the changed package back. \<open>allPackages\<close> is only
  filled and sorted by the source, never read, and is left out.
\<close>

definition enumStep :: "Table \<Rightarrow> (string \<times> Package) list \<Rightarrow> Func \<Rightarrow> (string \<times> Package) list" where
  "enumStep tab packages n =
     (let ok = (map_of packages (Func_PackageName n) \<noteq> None);
          p = (case map_of packages (Func_PackageName n) of
                 Some q \<Rightarrow> q
               | None \<Rightarrow> \<lparr>Package_Name = [], Package_Filepath = [], Package_Functions = [],
                           Package_Methods = []\<rparr>);
          needFilepath = (\<not> ok);
          fn = \<lparr>Function_Name = Func_BaseName n, Function_Offset = Func_Entry n,
                Function_End = Func_End n, Function_PackageName = Func_PackageName n\<rparr>;
          p1 = (if Func_ReceiverName n \<noteq> []
                then p\<lparr>Package_Methods := Package_Methods p
                          @ [\<lparr>Method_Function = fn, Method_Receiver = Func_ReceiverName n\<rparr>]\<rparr>
                else p\<lparr>Package_Functions := Package_Functions p @ [fn]\<rparr>);
          p2 = (if needFilepath
                then (let fp = Table_PCToLine tab (Func_Entry n)
                      in if fp = ''<autogenerated>'' \<or> fp = [] then p1\<lparr>Package_Filepath := fp\<rparr>
                         else p1\<lparr>Package_Filepath := pathDir fp\<rparr>)
                else p1)
      in AList.update (Func_PackageName n) p2 packages)"

definition enumLoop :: "Table \<Rightarrow> (string \<times> Package) list" where
  "enumLoop tab = foldl (enumStep tab) [] (Table_Funcs tab)"

text \<open>
  One round of the last loop, for the key \<open>n\<close>: the package gets its name and is appended
  to the list of its class.
\<close>

definition classifyStep :: "world \<Rightarrow> PackageClassifier \<Rightarrow> (string \<times> Package) list \<Rightarrow> GoFile \<Rightarrow> string
                             \<Rightarrow> GoFile" where
  "classifyStep w classifier packages f n =
     (case map_of packages n of
        None \<Rightarrow> f
      | Some q \<Rightarrow>
          (let p = q\<lparr>Package_Name := n\<rparr>
           in case Classify (stdPkgs w) classifier p of
                ClassSTD \<Rightarrow> f\<lparr>GoFile_stdPkgs := GoFile_stdPkgs f @ [p]\<rparr>
              | ClassVendor \<Rightarrow> f\<lparr>GoFile_vendors := GoFile_vendors f @ [p]\<rparr>
              | ClassMain \<Rightarrow> f\<lparr>GoFile_pkgs := GoFile_pkgs f @ [p]\<rparr>
              | ClassUnknown \<Rightarrow> f\<lparr>GoFile_unknown := GoFile_unknown f @ [p]\<rparr>
              | ClassGenerated \<Rightarrow> f\<lparr>GoFile_generated := GoFile_generated f @ [p]\<rparr>))"

text \<open>The body of \<open>enumPackages\<close> once \<open>f.pclntab\<close> has been read.\<close>

definition enumPackages_tab :: "world \<Rightarrow> Table \<Rightarrow> GoFile \<Rightarrow> error option \<times> GoFile" where
  "enumPackages_tab w tab f =
     (let packages = enumLoop tab;
          modInfo = (case GoFile_BuildInfo f of None \<Rightarrow> None | Some bi \<Rightarrow> BuildInfo_ModInfo bi);
          classifier = (case modInfo of
                          Some mi \<Rightarrow> Inr (ModClassifier (NewModPackageClassifier mi))
                        | None \<Rightarrow>
                            (case map_of packages ''main'' of
                               None \<Rightarrow> Inl (Errorf ''no main package found'')
                             | Some mainPkg \<Rightarrow>
                                 Inr (PathClassifier (NewPathPackageClassifier (Package_Filepath mainPkg)))))
      in case classifier of
           Inl err \<Rightarrow> (Some err, f)
         | Inr c \<Rightarrow> (None, foldl (classifyStep w c packages) f (rangeOrder w (map fst packages))))"

definition enumPackages :: "world \<Rightarrow> GoFile \<Rightarrow> (error option \<times> GoFile) outcome" where
  "enumPackages w f =
     (case GoFile_pclntab f of
        None \<Rightarrow> Panic ''invalid memory address or nil pointer dereference''
      | Some tab \<Rightarrow>
          (case enumPackages_tab w tab f of
             (err, f') \<Rightarrow> Return (err, f'\<lparr>GoFile_log := GoFile_log f' @ [CallEnumPackages]\<rparr>)))"

text \<open>
  The rule of the specification for the path of a package, from the function \<open>n\<close> that creates it:
  the directory of the file of its entry point, the file itself when that is
  \<open><autogenerated>\<close> or empty.
\<close>

definition spec_Filepath :: "Table \<Rightarrow> Func \<Rightarrow> string" where
  "spec_Filepath tab n =
     (if Table_PCToLine tab (Func_Entry n) = ''<autogenerated>'' \<or> Table_PCToLine tab (Func_Entry n) = []
      then Table_PCToLine tab (Func_Entry n)
      else pathDir (Table_PCToLine tab (Func_Entry n)))"

text \<open>The packages of all five lists of a handle, and a handle without module information.\<close>

definition allPackages :: "GoFile \<Rightarrow> Package list" where
  "allPackages f = GoFile_stdPkgs f @ GoFile_generated f @ GoFile_pkgs f @ GoFile_vendors f @ GoFile_unknown f"

definition noModInfo :: "GoFile \<Rightarrow> bool" where
  "noModInfo f = ((case GoFile_BuildInfo f of None \<Rightarrow> None | Some bi \<Rightarrow> BuildInfo_ModInfo bi) = None)"

subsection \<open>initPackages and the package lists\<close>

definition initPackages_body :: "world \<Rightarrow> GoFile \<Rightarrow> GoFile outcome" where
  "initPackages_body w f =
     (case PCLNTab w f of
        (Inl err, f1) \<Rightarrow> Return (f1\<lparr>GoFile_initPackagesError := Some err\<rparr>)
      | (Inr tab, f1) \<Rightarrow>
          (case enumPackages w (f1\<lparr>GoFile_pclntab := Some tab\<rparr>) of
             Panic v \<Rightarrow> Panic v
           | Return (err, f2) \<Rightarrow> Return (f2\<lparr>GoFile_initPackagesError := err\<rparr>)))"

definition initPackages :: "world \<Rightarrow> GoFile \<Rightarrow> (error option \<times> GoFile) outcome" where
  "initPackages w f =
     (if GoFile_initPackagesOnce f then Return (GoFile_initPackagesError f, f)
      else case initPackages_body w f of
             Panic v \<Rightarrow> Panic v
           | Return f' \<Rightarrow>
               Return (GoFile_initPackagesError f', f'\<lparr>GoFile_initPackagesOnce := True\<rparr>))"

definition GetPackages :: "world \<Rightarrow> GoFile \<Rightarrow> ((Package list \<times> error option) \<times> GoFile) outcome" where
  "GetPackages w f =
     (case initPackages w f of
        Panic v \<Rightarrow> Panic v
      | Return (err, f') \<Rightarrow> Return ((GoFile_pkgs f', err), f'))"

definition GetVendors :: "world \<Rightarrow> GoFile \<Rightarrow> ((Package list \<times> error option) \<times> GoFile) outcome" where
  "GetVendors w f =
     (case initPackages w f of
        Panic v \<Rightarrow> Panic v
      | Return (err, f') \<Rightarrow> Return ((GoFile_vendors f', err), f'))"

definition GetSTDLib :: "world \<Rightarrow> GoFile \<Rightarrow> ((Package list \<times> error option) \<times> GoFile) outcome" where
  "GetSTDLib w f =
     (case initPackages w f of
        Panic v \<Rightarrow> Panic v
      | Return (err, f') \<Rightarrow> Return ((GoFile_stdPkgs f', err), f'))"

definition GetGeneratedPackages :: "world \<Rightarrow> GoFile \<Rightarrow> ((Package list \<times> error option) \<times> GoFile) outcome" where
  "GetGeneratedPackages w f =
     (case initPackages w f of
        Panic v \<Rightarrow> Panic v
      | Return (err, f') \<Rightarrow> Return ((GoFile_generated f', err), f'))"

definition GetUnknown :: "world \<Rightarrow> GoFile \<Rightarrow> ((Package list \<times> error option) \<times> GoFile) outcome" where
  "GetUnknown w f =
     (case initPackages w f of
        Panic v \<Rightarrow> Panic v
      | Return (err, f') \<Rightarrow> Return ((GoFile_unknown f', err), f'))"

subsection \<open>Repeated calls\<close>

text \<open>
  \<open>GetPackages\<close> called \<open>n\<close> times in a row on a handle, with the list of the results, and
  a handle on which neither gate has run and whose log is empty, as \<open>Open\<close> makes it.
\<close>

fun GetPackages_times :: "world \<Rightarrow> nat \<Rightarrow> GoFile \<Rightarrow> ((Package list \<times> error option) list \<times> GoFile) outcome" where
  "GetPackages_times w 0 f = Return ([], f)"
| "GetPackages_times w (Suc n) f =
     (case GetPackages w f of
        Panic v \<Rightarrow> Panic v
      | Return (r, f') \<Rightarrow>
          (case GetPackages_times w n f' of
             Panic v \<Rightarrow> Panic v
           | Return (rs, f'') \<Rightarrow> Return (r # rs, f'')))"

definition fresh :: "GoFile \<Rightarrow> bool" where
  "fresh f = (\<not> GoFile_initPackagesOnce f \<and> \<not> GoFile_initModuleDataOnce f \<and> GoFile_log f = [])"

subsection \<open>SourceInfo and GetSourceFiles\<close>

definition SourceInfo :: "world \<Rightarrow> GoFile \<Rightarrow> Function \<Rightarrow> (string \<times> int \<times> int) outcome" where
  "SourceInfo w f fn =
     (case PCToLine (GoFile_pclntab f) (Function_Offset fn) of
        Panic v \<Rightarrow> Panic v
      | Return srcFile \<Rightarrow>
          (case GoFile_pclntab f of
             None \<Rightarrow> Panic ''invalid memory address or nil pointer dereference''
           | Some tab \<Rightarrow>
               (case findSourceLines w (Function_Offset fn) (Function_End fn) tab of
                  (start, stop) \<Rightarrow> Return (srcFile, start, stop))))"

record FileEntry =
  FileEntry_Name :: string
  FileEntry_Start :: int
  FileEntry_End :: int

record SourceFile =
  SourceFile_Name :: string
  SourceFile_entries :: "FileEntry list"

text \<open>
  One round of the loops of \<open>GetSourceFiles\<close>, for an entry point, an end and a display
  name; \<open>tmp\<close> is the map from file names to source files.
\<close>

definition sourceStep :: "world \<Rightarrow> GoFile \<Rightarrow> (string \<times> SourceFile) list \<Rightarrow> uint64 \<Rightarrow> uint64 \<Rightarrow> string
                           \<Rightarrow> (string \<times> SourceFile) list outcome" where
  "sourceStep w f tmp entry stop name =
     (case PCToLine (GoFile_pclntab f) entry of
        Panic v \<Rightarrow> Panic v
      | Return fileName \<Rightarrow>
          (case GoFile_pclntab f of
             None \<Rightarrow> Panic ''invalid memory address or nil pointer dereference''
           | Some tab \<Rightarrow>
               (case findSourceLines w entry stop tab of
                  (start, stop') \<Rightarrow>
                    (let e = \<lparr>FileEntry_Name = name, FileEntry_Start = start, FileEntry_End = stop'\<rparr>;
                         sf = (case map_of tmp fileName of
                                 None \<Rightarrow> \<lparr>SourceFile_Name = pathBase fileName, SourceFile_entries = []\<rparr>
                               | Some sf0 \<Rightarrow> sf0)
                     in Return (AList.update fileName
                                  (sf\<lparr>SourceFile_entries := SourceFile_entries sf @ [e]\<rparr>) tmp)))))"

fun functionsLoop :: "world \<Rightarrow> GoFile \<Rightarrow> (string \<times> SourceFile) list \<Rightarrow> Function list
                       \<Rightarrow> (string \<times> SourceFile) list outcome" where
  "functionsLoop w f tmp [] = Return tmp"
| "functionsLoop w f tmp (fn # rest) =
     (case sourceStep w f tmp (Function_Offset fn) (Function_End fn) (Function_Name fn) of
        Panic v \<Rightarrow> Panic v
      | Return tmp' \<Rightarrow> functionsLoop w f tmp' rest)"

fun methodsLoop :: "world \<Rightarrow> GoFile \<Rightarrow> (string \<times> SourceFile) list \<Rightarrow> Method list
                     \<Rightarrow> (string \<times> SourceFile) list outcome" where
  "methodsLoop w f tmp [] = Return tmp"
| "methodsLoop w f tmp (m # rest) =
     (case sourceStep w f tmp (Function_Offset (Method_Function m)) (Function_End (Method_Function m))
             (Method_Receiver m @ Function_Name (Method_Function m)) of
        Panic v \<Rightarrow> Panic v
      | Return tmp' \<Rightarrow> methodsLoop w f tmp' rest)"

text \<open>
  The files are collected in the order of \<open>range\<close> over the map and sorted by name;
  \<open>sort.Slice\<close> is not stable, which the order of collection accounts for.
\<close>

definition GetSourceFiles :: "world \<Rightarrow> GoFile \<Rightarrow> Package \<Rightarrow> SourceFile list outcome" where
  "GetSourceFiles w f p =
     (case functionsLoop w f [] (Package_Functions p) of
        Panic v \<Rightarrow> Panic v
      | Return tmp1 \<Rightarrow>
          (case methodsLoop w f tmp1 (Package_Methods p) of
             Panic v \<Rightarrow> Panic v
           | Return tmp \<Rightarrow>
               Return (sort_key SourceFile_Name
                         (concat (map (\<lambda>k. case map_of tmp k of None \<Rightarrow> [] | Some sf \<Rightarrow> [sf])
                                      (rangeOrder w (map fst tmp)))))))"

subsection \<open>Bytes\<close>

text \<open>
  All arithmetic of \<open>Bytes\<close> is on \<open>uint64\<close> and wraps. The slice expression \<open>section[lo:hi]\<close> panics unless
  \<open>lo \<le> hi \<le> cap(section)\<close>; the capacity of the data is its length.
\<close>

definition Bytes :: "GoFile \<Rightarrow> uint64 \<Rightarrow> uint64 \<Rightarrow> (error + byte list) outcome" where
  "Bytes f address len =
     (case getSectionDataFromAddress (GoFile_fh f) address of
        Inl err \<Rightarrow> Return (Inl err)
      | Inr (base, section) \<Rightarrow>
          if unat (address + len - base) > length section
          then Return (Inl (ErrorsNew ''length out of bounds''))
          else let lo = unat (address - base); hi = unat (address + len - base)
               in if lo \<le> hi \<and> hi \<le> length section
                  then Return (Inr (take (hi - lo) (drop lo section)))
                  else Panic ''slice bounds out of range'')"

section \<open>Example inputs\<close>

text \<open>
  An opened file that starts with the magic of PE; a PE file with one section \<open>.text\<close> of
  four bytes at virtual address \<open>0x1000\<close>, loaded at image base \<open>0x400000\<close>, and a
  handle on it. The search for the table is the scan
  modelled from the spec, with one magic; \<open>ex_header\<close> is a table that starts with a valid
  header.
\<close>

definition ex_magics :: "byte list list" where
  "ex_magics = [[0xf1, 0xff, 0xff, 0xff]]"

definition ex_searchSectionForTab :: "byte list \<Rightarrow> ByteOrder \<Rightarrow> error + byte list" where
  "ex_searchSectionForTab d b = scanForTab ex_magics d"

definition ex_header :: "byte list" where
  "ex_header = [0xf1, 0xff, 0xff, 0xff, 0, 0, 1, 8, 9, 9]"

definition ex_parseBuildIDFromRaw :: "byte list \<Rightarrow> error + string" where
  "ex_parseBuildIDFromRaw d = Inl (Errorf ''no build id'')"

definition ex_osFile :: osFile where
  "ex_osFile = \<lparr>osFile_contents = [0x4d, 0x5a, 0x90, 0x00], osFile_Seek = None\<rparr>"

definition ex_pe :: peFile where
  "ex_pe =
     \<lparr>peFile_file =
        \<lparr>File_Machine = 0x8664,
         File_Sections = [\<lparr>Section_Name = ''.text'', Section_VirtualAddress = 0x1000,
                            Section_Size = 4, Section_Offset = 0x400,
                            Section_Data = Inr [1, 2, 3, 4]\<rparr>],
         File_Symbols = [],
         File_OptionalHeader = OptionalHeader64 0x400000\<rparr>,
      peFile_osFile = ex_osFile,
      peFile_imageBase = 0x400000,
      peFile_pcln = newPclnTabOnce,
      peFile_symtab = newSymbolTableOnce,
      peFile_log = []\<rparr>"

definition ex_gofile :: GoFile where
  "ex_gofile = newGoFile (peHandler ex_searchSectionForTab ex_parseBuildIDFromRaw ex_pe)"

text \<open>
  The same file with a symbol table: a symbol of section 1 followed by a symbol whose
  section number 5 is out of range, the file having one section.
\<close>

definition ex_pe_badsym :: peFile where
  "ex_pe_badsym =
     ex_pe\<lparr>peFile_file := (peFile_file ex_pe)\<lparr>File_Symbols :=
       [\<lparr>Symbol_Name = ''main.main'', Symbol_Value = 0x10, Symbol_SectionNumber = 1\<rparr>,
        \<lparr>Symbol_Name = ''bad'', Symbol_Value = 0x20, Symbol_SectionNumber = 5\<rparr>]\<rparr>\<rparr>"

text \<open>
  PE files for the search of the table: a table at offset \<open>0x200\<close> of \<open>.rdata\<close>; a table
  at offset 2 of \<open>.text\<close> and none in \<open>.rdata\<close>; the same with the data of \<open>.rdata\<close>
  unreadable; a lone \<open>.text\<close> with unreadable data.
\<close>

definition ex_pe_rdata :: peFile where
  "ex_pe_rdata =
     ex_pe\<lparr>peFile_file := (peFile_file ex_pe)\<lparr>File_Sections :=
       [\<lparr>Section_Name = ''.text'', Section_VirtualAddress = 0x1000, Section_Size = 4,
         Section_Offset = 0x400, Section_Data = Inr [1, 2, 3, 4]\<rparr>,
        \<lparr>Section_Name = ''.rdata'', Section_VirtualAddress = 0x2000, Section_Size = 0x20a,
         Section_Offset = 0x600, Section_Data = Inr (replicate 0x200 0 @ ex_header)\<rparr>]\<rparr>\<rparr>"

definition ex_pe_text :: peFile where
  "ex_pe_text =
     ex_pe\<lparr>peFile_file := (peFile_file ex_pe)\<lparr>File_Sections :=
       [\<lparr>Section_Name = ''.text'', Section_VirtualAddress = 0x1000, Section_Size = 12,
         Section_Offset = 0x400, Section_Data = Inr ([0x90, 0x90] @ ex_header)\<rparr>,
        \<lparr>Section_Name = ''.rdata'', Section_VirtualAddress = 0x2000, Section_Size = 4,
         Section_Offset = 0x600, Section_Data = Inr [1, 2, 3, 4]\<rparr>]\<rparr>\<rparr>"

definition ex_pe_unreadable :: peFile where
  "ex_pe_unreadable =
     ex_pe\<lparr>peFile_file := (peFile_file ex_pe)\<lparr>File_Sections :=
       [\<lparr>Section_Name = ''.text'', Section_VirtualAddress = 0x1000, Section_Size = 12,
         Section_Offset = 0x400, Section_Data = Inr ([0x90, 0x90] @ ex_header)\<rparr>,
        \<lparr>Section_Name = ''.rdata'', Section_VirtualAddress = 0x2000, Section_Size = 0x20a,
         Section_Offset = 0x600, Section_Data = Inl (OSError ''unexpected EOF'')\<rparr>]\<rparr>\<rparr>"

definition ex_pe_text_unreadable :: peFile where
  "ex_pe_text_unreadable =
     ex_pe\<lparr>peFile_file := (peFile_file ex_pe)\<lparr>File_Sections :=
       [\<lparr>Section_Name = ''.text'', Section_VirtualAddress = 0x1000, Section_Size = 12,
         Section_Offset = 0x400, Section_Data = Inl (OSError ''unexpected EOF'')\<rparr>]\<rparr>\<rparr>"

text \<open>
  A line table with two functions and a method in three packages, a line table without a
  package \<open>main\<close>, and a world: the files of the examples by name, a parser that
  delivers the PE file with the table in \<open>.rdata\<close>, no build information, and \<open>range\<close>
  visiting the keys of a map in reverse order of insertion.
\<close>

definition ex_table :: Table where
  "ex_table =
     \<lparr>Table_Funcs =
        [\<lparr>Func_PackageName = ''main'', Func_ReceiverName = [], Func_BaseName = ''main'',
          Func_Entry = 0x401000, Func_End = 0x401010\<rparr>,
         \<lparr>Func_PackageName = ''fmt'', Func_ReceiverName = [], Func_BaseName = ''Println'',
          Func_Entry = 0x401010, Func_End = 0x401020\<rparr>,
         \<lparr>Func_PackageName = ''main'', Func_ReceiverName = ''(*T)'', Func_BaseName = ''Run'',
          Func_Entry = 0x401020, Func_End = 0x401030\<rparr>,
         \<lparr>Func_PackageName = ''type..eq'', Func_ReceiverName = [], Func_BaseName = ''T'',
          Func_Entry = 0x401030, Func_End = 0x401040\<rparr>],
      Table_PCToLine = (\<lambda>pc. if pc = 0x401000 then ''/home/u/proj/cmd/main.go''
                            else if pc = 0x401010 then ''/usr/local/go/src/fmt/print.go''
                            else if pc = 0x401020 then ''/home/u/proj/lib/t.go''
                            else if pc = 0x401030 then ''<autogenerated>''
                            else [])\<rparr>"

definition ex_table_nomain :: Table where
  "ex_table_nomain =
     \<lparr>Table_Funcs =
        [\<lparr>Func_PackageName = ''fmt'', Func_ReceiverName = [], Func_BaseName = ''Println'',
          Func_Entry = 0x401010, Func_End = 0x401020\<rparr>],
      Table_PCToLine = (\<lambda>pc. ''/usr/local/go/src/fmt/print.go'')\<rparr>"

definition ex_world :: world where
  "ex_world =
     \<lparr>os_Open = (\<lambda>fp. if fp = ''empty'' then Inr \<lparr>osFile_contents = [], osFile_Seek = None\<rparr>
                       else if fp = ''short'' then Inr \<lparr>osFile_contents = [0x4d, 0x5a], osFile_Seek = None\<rparr>
                       else if fp = ''notes.txt''
                       then Inr \<lparr>osFile_contents = [0x68, 0x65, 0x6c, 0x6c, 0x6f], osFile_Seek = None\<rparr>
                       else if fp = ''app.exe'' then Inr ex_osFile
                       else Inl (OSError ''no such file or directory'')),
      pe_NewFile = (\<lambda>f. Return (Inr (peFile_file ex_pe_rdata))),
      openELF = (\<lambda>fp. Return (Inl (Errorf ''not an ELF file''))),
      openMachO = (\<lambda>fp. Return (Inl (Errorf ''not a Mach-O file''))),
      searchSectionForTab = ex_searchSectionForTab,
      parseBuildIDFromRaw = ex_parseBuildIDFromRaw,
      extractBuildInfo = (\<lambda>f. Inl (Errorf ''no build info'')),
      extractModuledata = (\<lambda>fi h. (\<lparr>moduledata_TextAddr = 0x401000\<rparr>, None)),
      findGoCompilerVersion = (\<lambda>f. Inr (GoVersion ''go1.20'')),
      gosym_NewTable = (\<lambda>data addr. Inr ex_table),
      findSourceLines = (\<lambda>entry stop tab. (10, 20)),
      stdPkgs = (\<lambda>s. s \<in> set [''fmt'', ''runtime'', ''os'']),
      rangeOrder = rev\<rparr>"

text \<open>
  Packages: one beside the grandparent of the main package's path, a package of the
  standard library, one below the main package's path, and the package \<open>main\<close> of the example table with the two functions of
  the table that belong to it.
\<close>

definition ex_x :: Package where
  "ex_x = \<lparr>Package_Name = ''x'', Package_Filepath = ''/home/u/lib'', Package_Functions = [], Package_Methods = []\<rparr>"
definition ex_os :: Package where
  "ex_os = \<lparr>Package_Name = ''os'', Package_Filepath = ''/usr/local/go/src/os'', Package_Functions = [], Package_Methods = []\<rparr>"

definition ex_sub :: Package where
  "ex_sub = \<lparr>Package_Name = ''sub'', Package_Filepath = ''/home/u/proj/cmd/sub'', Package_Functions = [], Package_Methods = []\<rparr>"


definition ex_main :: Package where
  "ex_main =
     \<lparr>Package_Name = ''main'', Package_Filepath = ''/home/u/proj/cmd'',
      Package_Functions = [\<lparr>Function_Name = ''main'', Function_Offset = 0x401000,
                             Function_End = 0x401010, Function_PackageName = ''main''\<rparr>],
      Package_Methods = [\<lparr>Method_Function = \<lparr>Function_Name = ''Run'', Function_Offset = 0x401020,
                                               Function_End = 0x401030, Function_PackageName = ''main''\<rparr>,
                           Method_Receiver = ''(*T)''\<rparr>]\<rparr>"

definition ex_main_func :: Func where
  "ex_main_func = \<lparr>Func_PackageName = ''main'', Func_ReceiverName = [], Func_BaseName = ''main'',
          Func_Entry = 0x401000, Func_End = 0x401010\<rparr>"
definition ex_run_func :: Func where
  "ex_run_func = \<lparr>Func_PackageName = ''main'', Func_ReceiverName = ''(*T)'', Func_BaseName = ''Run'',
          Func_Entry = 0x401020, Func_End = 0x401030\<rparr>"

text \<open>A handle on the PE file that holds a table in \<open>.rdata\<close>.\<close>

definition ex_gofile_rdata :: GoFile where
  "ex_gofile_rdata = newGoFile (peHandler ex_searchSectionForTab ex_parseBuildIDFromRaw ex_pe_rdata)"

text \<open>
  A world whose parser delivers the table without a package \<open>main\<close>; the handles that
  \<open>initPackages\<close> leaves in that world and in the first one; a function and a package
  without functions.
\<close>

definition ex_world_nomain :: world where
  "ex_world_nomain = ex_world\<lparr>gosym_NewTable := (\<lambda>data addr. Inr ex_table_nomain)\<rparr>"

definition ex_gofile_nomain :: GoFile where
  "ex_gofile_nomain =
     (case initPackages ex_world_nomain ex_gofile_rdata of
        Return (e, f1) \<Rightarrow> f1
      | Panic v \<Rightarrow> ex_gofile_rdata)"

definition ex_gofile_ready :: GoFile where
  "ex_gofile_ready =
     (case initPackages ex_world ex_gofile_rdata of
        Return (e, f1) \<Rightarrow> f1
      | Panic v \<Rightarrow> ex_gofile_rdata)"

definition ex_println :: Function where
  "ex_println = \<lparr>Function_Name = ''Println'', Function_Offset = 0x401010, Function_End = 0x401020,
                  Function_PackageName = ''fmt''\<rparr>"

definition ex_empty :: Package where
  "ex_empty = \<lparr>Package_Name = ''empty'', Package_Filepath = [], Package_Functions = [], Package_Methods = []\<rparr>"

text \<open>
  A PE file with two adjacent sections of \<open>0x1000\<close> bytes each, at virtual addresses
  \<open>0x1000\<close> and \<open>0x2000\<close>, and a handle on it.
\<close>

definition ex_pe_adjacent :: peFile where
  "ex_pe_adjacent =
     ex_pe\<lparr>peFile_file := (peFile_file ex_pe)\<lparr>File_Sections :=
       [\<lparr>Section_Name = ''.text'', Section_VirtualAddress = 0x1000, Section_Size = 0x1000,
         Section_Offset = 0x400, Section_Data = Inr (replicate 0x1000 0x90)\<rparr>,
        \<lparr>Section_Name = ''.rdata'', Section_VirtualAddress = 0x2000, Section_Size = 0x1000,
         Section_Offset = 0x1400, Section_Data = Inr (replicate 0x1000 0xcc)\<rparr>]\<rparr>\<rparr>"

definition ex_gofile_adjacent :: GoFile where
  "ex_gofile_adjacent =
     newGoFile (peHandler ex_searchSectionForTab ex_parseBuildIDFromRaw ex_pe_adjacent)"

text \<open>
  Two more worlds: one in which moduledata extraction fails, and one in which the parse
  of the table fails.
\<close>

definition ex_world_nomd :: world where
  "ex_world_nomd =
     ex_world\<lparr>extractModuledata :=
       (\<lambda>fi h. (\<lparr>moduledata_TextAddr = 0\<rparr>, Some (Errorf ''moduledata not found'')))\<rparr>"

definition ex_world_badtab :: world where
  "ex_world_badtab = ex_world\<lparr>gosym_NewTable := (\<lambda>data addr. Inl (Errorf ''bad table''))\<rparr>"


section \<open>Properties\<close>

subsection \<open>Reading bytes at an address\<close>


lemma sectionDataLoop_none:
  "\<forall>s \<in> set secs. \<not> inSection ib s a \<Longrightarrow> sectionDataLoop ib secs a = Inl ErrSectionDoesNotExist"
  by (induction secs) (auto simp: inSection_def)


lemma ucast_add_nowrap:
  fixes x y :: uint32
  assumes "unat x + unat y < 2 ^ 32"
  shows "(ucast (x + y) :: uint64) = ucast x + ucast y"
proof -
  have "unat x + unat y < 2 ^ LENGTH(32)"
    using assms by simp
  then have "unat (x + y) = unat x + unat y"
    by (rule unat_add_lem [THEN iffD1])
  then have "(of_nat (unat (x + y)) :: uint64) = of_nat (unat x) + of_nat (unat y)"
    by simp
  then show ?thesis by simp
qed

lemma ex_gofile_handler:
  "getSectionDataFromAddress (GoFile_fh ex_gofile) = peFile_getSectionDataFromAddress ex_pe"
  by (simp add: ex_gofile_def newGoFile_def peHandler_def)




text \<open>
  A function whose end lies before its entry is outside that statement: the length wraps
  around, the bounds check passes, and the slice expression panics.
\<close>

lemma Bytes_reversed_range_panics:
  "Bytes ex_gofile 0x401003 (0x401002 - 0x401003) = Panic ''slice bounds out of range''"
  by (simp add: Bytes_def ex_gofile_handler peFile_getSectionDataFromAddress_def ex_pe_def)

lemma replicate_two: "replicate 2 x = [x, x]"
  by (simp add: numeral_2_eq_2)

lemma ex_gofile_adjacent_handler:
  "getSectionDataFromAddress (GoFile_fh ex_gofile_adjacent)
     = peFile_getSectionDataFromAddress ex_pe_adjacent"
  by (simp add: ex_gofile_adjacent_def newGoFile_def peHandler_def)

text \<open>
  C7, as the specification states it, fails: the address \<open>base + len(section)\<close> of the
  only section of the example file, \<open>0x401004\<close>, yields the section-missing error from
  the handler and from \<open>Bytes\<close>, not the out-of-bounds error. And where the next section
  begins at that address, as in the file with two adjacent sections, the query succeeds
  with the data of the next section.
\<close>

theorem section_end_counterexample:
  "peFile_getSectionDataFromAddress ex_pe (0x401000 + 4) = Inl ErrSectionDoesNotExist
   \<and> Bytes ex_gofile (0x401000 + 4) 0 = Return (Inl ErrSectionDoesNotExist)
   \<and> ErrSectionDoesNotExist \<noteq> ErrorsNew ''length out of bounds''
   \<and> peFile_getSectionDataFromAddress ex_pe_adjacent (0x401000 + 0x1000)
       = Inr (0x402000, replicate 0x1000 0xcc)
   \<and> Bytes ex_gofile_adjacent (0x401000 + 0x1000) 2 = Return (Inr [0xcc, 0xcc])"
proof -
  have a: "peFile_getSectionDataFromAddress ex_pe (0x401000 + 4) = Inl ErrSectionDoesNotExist"
    by (simp add: peFile_getSectionDataFromAddress_def ex_pe_def)
  have b: "Bytes ex_gofile (0x401000 + 4) 0 = Return (Inl ErrSectionDoesNotExist)"
    using a by (simp add: Bytes_def ex_gofile_handler)
  have c: "peFile_getSectionDataFromAddress ex_pe_adjacent (0x401000 + 0x1000)
             = Inr (0x402000, replicate 0x1000 0xcc)"
    by (simp add: peFile_getSectionDataFromAddress_def ex_pe_adjacent_def ex_pe_def)
  have d: "Bytes ex_gofile_adjacent (0x401000 + 0x1000) 2 = Return (Inr [0xcc, 0xcc])"
    using c by (simp add: Bytes_def ex_gofile_adjacent_handler replicate_two)
  show ?thesis using a b c d by simp
qed

text \<open>
  C7, amended: the address \<open>base + len(section)\<close> lies outside the section, whose range
  is half open. When no other section of the file contains that address, the handler and
  \<open>Bytes\<close> (for any length) yield the section-missing error. Here the data of the section
  has as many bytes as its \<open>Size\<close> says, and \<open>VirtualAddress + Size\<close> fits in 32 bits.
\<close>

theorem section_end_address_missing:
  assumes h: "getSectionDataFromAddress (GoFile_fh f) = peFile_getSectionDataFromAddress p"
      and s: "s \<in> set (File_Sections (peFile_file p))"
      and d: "Section_Data s = Inr sdata" "length sdata = unat (Section_Size s)"
      and nowrap: "unat (Section_VirtualAddress s) + unat (Section_Size s) < 2 ^ 32"
      and a: "a = peFile_imageBase p + ucast (Section_VirtualAddress s) + of_nat (length sdata)"
      and others: "\<forall>s' \<in> set (File_Sections (peFile_file p)).
                     s' \<noteq> s \<longrightarrow> \<not> inSection (peFile_imageBase p) s' a"
  shows "peFile_getSectionDataFromAddress p a = Inl ErrSectionDoesNotExist
       \<and> Bytes f a n = Return (Inl ErrSectionDoesNotExist)"
proof -
  have "a = peFile_imageBase p + ucast (Section_VirtualAddress s + Section_Size s)"
    using a d nowrap by (simp add: ucast_add_nowrap)
  then have "\<not> inSection (peFile_imageBase p) s a"
    by (simp add: inSection_def)
  with others have "\<forall>s' \<in> set (File_Sections (peFile_file p)). \<not> inSection (peFile_imageBase p) s' a"
    by auto
  then have g: "peFile_getSectionDataFromAddress p a = Inl ErrSectionDoesNotExist"
    by (simp add: peFile_getSectionDataFromAddress_def sectionDataLoop_none)
  with h show ?thesis by (simp add: Bytes_def)
qed

theorem section_end_address_missing_witness:
  "peFile_getSectionDataFromAddress ex_pe 0x401004 = Inl ErrSectionDoesNotExist
   \<and> Bytes ex_gofile 0x401004 7 = Return (Inl ErrSectionDoesNotExist)"
proof -
  let ?s = "\<lparr>Section_Name = ''.text'', Section_VirtualAddress = 0x1000, Section_Size = 4,
             Section_Offset = 0x400, Section_Data = Inr [1, 2, 3, 4 :: byte]\<rparr>"
  have s: "?s \<in> set (File_Sections (peFile_file ex_pe))" by (simp add: ex_pe_def)
  have d: "Section_Data ?s = Inr [1, 2, 3, 4]" "length [1, 2, 3, 4 :: byte] = unat (Section_Size ?s)"
    by simp_all
  have nowrap: "unat (Section_VirtualAddress ?s) + unat (Section_Size ?s) < 2 ^ 32" by simp
  have a: "(0x401004 :: uint64)
           = peFile_imageBase ex_pe + ucast (Section_VirtualAddress ?s) + of_nat (length [1, 2, 3, 4 :: byte])"
    by (simp add: ex_pe_def)
  have others: "\<forall>s' \<in> set (File_Sections (peFile_file ex_pe)).
                  s' \<noteq> ?s \<longrightarrow> \<not> inSection (peFile_imageBase ex_pe) s' 0x401004"
    by (simp add: ex_pe_def)
  show ?thesis
    by (rule section_end_address_missing [OF ex_gofile_handler s d nowrap a others])
qed

subsection \<open>The symbol table of a PE file\<close>

lemma symLoop_invalid:
  "list_ex (invalidSectionNumber sects) symbols
   \<Longrightarrow> symLoop ib sects symbols syms addrs = Inl (Errorf ''invalid section number in symbol table'')"
  by (induction symbols arbitrary: syms addrs) (auto simp: invalidSectionNumber_def Let_def)

lemma symLoop_valid:
  "\<not> list_ex (invalidSectionNumber sects) symbols
   \<Longrightarrow> \<exists>r. symLoop ib sects symbols syms addrs = Inr r"
  by (induction symbols arbitrary: syms addrs) (auto simp: invalidSectionNumber_def Let_def)

text \<open>
  C6, as the specification states it, fails: with a symbol of section 1 and a symbol of the
  out-of-range section 5, the normalization returns the error for the whole table; the
  table stays empty and the lookup of the first, well-formed symbol fails with that error.
\<close>

theorem initSymTab_skip_counterexample:
  "fst (peFile_hasSymbolTable ex_pe_badsym) = Inl (Errorf ''invalid section number in symbol table'')
   \<and> fst (peFile_getSymbol ex_pe_badsym ''main.main'')
       = Inl (Errorf ''invalid section number in symbol table'')
   \<and> symtab_table (peFile_symtab (snd (initSymTab ex_pe_badsym))) = []"
  by (simp add: initSymTab_def initSymTab_body_def peFile_hasSymbolTable_def peFile_getSymbol_def
        Let_def ex_pe_badsym_def ex_pe_def newSymbolTableOnce_def NUndef_def NAbs_def NDebug_def)

text \<open>
  C6, amended: when the symbol table of a PE file contains a symbol whose section number
  is out of range (not 0, -1 or -2, and negative or greater than the number of
  sections), the first normalization stops at it: it returns the error "invalid section
  number in symbol table", stores no symbol in the table, and \<open>hasSymbolTable\<close>,
  \<open>getSymbol\<close> and every later normalization return that error.
\<close>

theorem initSymTab_invalid_section:
  assumes fresh: "\<not> symtab_done (peFile_symtab p)"
      and bad: "list_ex (invalidSectionNumber (File_Sections (peFile_file p)))
                  (File_Symbols (peFile_file p))"
  shows "fst (initSymTab p) = Some (Errorf ''invalid section number in symbol table'')
       \<and> symtab_table (peFile_symtab (snd (initSymTab p))) = symtab_table (peFile_symtab p)
       \<and> fst (peFile_hasSymbolTable p) = Inl (Errorf ''invalid section number in symbol table'')
       \<and> fst (peFile_getSymbol p name) = Inl (Errorf ''invalid section number in symbol table'')
       \<and> fst (initSymTab (snd (initSymTab p)))
           = Some (Errorf ''invalid section number in symbol table'')"
  using fresh symLoop_invalid [OF bad]
  by (simp add: initSymTab_def initSymTab_body_def peFile_hasSymbolTable_def peFile_getSymbol_def
        Let_def)

theorem initSymTab_invalid_section_witness:
  "\<not> symtab_done (peFile_symtab ex_pe_badsym)
   \<and> list_ex (invalidSectionNumber (File_Sections (peFile_file ex_pe_badsym)))
        (File_Symbols (peFile_file ex_pe_badsym))
   \<and> fst (peFile_getSymbol ex_pe_badsym ''main.main'')
       = Inl (Errorf ''invalid section number in symbol table'')"
proof -
  have fresh: "\<not> symtab_done (peFile_symtab ex_pe_badsym)"
    by (simp add: ex_pe_badsym_def ex_pe_def newSymbolTableOnce_def)
  have bad: "list_ex (invalidSectionNumber (File_Sections (peFile_file ex_pe_badsym)))
               (File_Symbols (peFile_file ex_pe_badsym))"
    by (simp add: ex_pe_badsym_def ex_pe_def invalidSectionNumber_def NUndef_def NAbs_def NDebug_def)
  show ?thesis
    using fresh bad initSymTab_invalid_section [OF fresh bad, of "''main.main''"] by simp
qed

subsection \<open>Opening a PE file\<close>

lemma openPE_panic:
  "opn fp = Inr osf \<Longrightarrow> parse osf = Panic r \<Longrightarrow> openPE opn parse fp = Panic r"
  by (simp add: openPE_def openPE_body_def)

text \<open>
  C1: a panic of the parser should come back from \<open>openPE\<close> as an error. It does not:
  the function that calls \<open>recover\<close> is started as a goroutine and not deferred, so the
  panic of the parser leaves \<open>openPE\<close> as a panic.
\<close>

theorem openPE_parser_panic:
  "openPE (\<lambda>fp. Inr ex_osFile) (\<lambda>f. Panic ''runtime error: index out of range'') ''corrupt.exe''
   = Panic ''runtime error: index out of range''"
  by (simp add: openPE_def openPE_body_def)

subsection \<open>The search for the line table in a PE file\<close>

lemma peFile_byteOrder [simp]: "FileInfo_ByteOrder (peFile_getFileInfo p) = LittleEndian"
  by (simp add: peFile_getFileInfo_def Let_def)

lemma scanForTab_skip_zeros: "scanForTab ex_magics (replicate n 0 @ d) = scanForTab ex_magics d"
  by (induction n) (auto simp: validHeader_def ex_magics_def)

lemma scanForTab_suffix:
  "scanForTab magics d = Inr tab \<Longrightarrow> validHeader magics tab \<and> (\<exists>pre. d = pre @ tab)"
  by (induction d) (auto split: if_splits)

lemma scanForTab_ex_header: "scanForTab ex_magics ex_header = Inr ex_header"
  by (simp add: validHeader_def ex_magics_def ex_header_def)

lemmas ex_pe_files =
  ex_pe_unreadable_def ex_pe_text_unreadable_def ex_pe_text_def ex_pe_rdata_def ex_pe_def
  File_Section_def

text \<open>
  C4, as the specification states it, fails: when the data of \<open>.rdata\<close> cannot be read, the search
  stops with the error of the read and does not go on to \<open>.text\<close>, which holds a valid
  table here. And in a file whose only section cannot be read, no section yields a valid
  header, and the error is that of the read, not the no-PCLNTAB error.
\<close>

theorem searchForPCLNTab_unreadable_counterexample:
  "searchForPCLNTab ex_searchSectionForTab ex_pe_unreadable = Inl (OSError ''unexpected EOF'')
   \<and> ex_searchSectionForTab ([0x90, 0x90] @ ex_header) LittleEndian = Inr ex_header
   \<and> searchForPCLNTab ex_searchSectionForTab ex_pe_text_unreadable = Inl (OSError ''unexpected EOF'')
   \<and> OSError ''unexpected EOF'' \<noteq> ErrNoPCLNTab"
  by (simp add: searchForPCLNTab_def ex_pe_unreadable_def ex_pe_text_unreadable_def ex_pe_def
        File_Section_def ex_searchSectionForTab_def ex_header_def ex_magics_def validHeader_def)

text \<open>
  C4, amended: the search looks at \<open>.rdata\<close> first and then at \<open>.text\<close>. A section that is
  absent, or in whose data \<open>searchSectionForTab\<close> finds no table, is passed over; a section
  whose data cannot be read stops the search with the error of the read. When both
  sections are passed over the result is the no-PCLNTAB error. The first table found is
  returned as \<open>searchSectionForTab\<close> gave it, with the address
  \<open>imageBase + uint64(VirtualAddress + uint32(len(data) - len(table)))\<close>; for a table that
  is the tail of the data after \<open>pre\<close>, that is the image base plus the 32-bit sum of the
  virtual address and the offset \<open>len(pre)\<close>.
\<close>

theorem getPCLNTABDataImpl_scan:
  "(yieldsHeader sst p ''.rdata'' sec d tab
      \<longrightarrow> getPCLNTABDataImpl sst p = Inr (tabAddress p sec d tab, tab))
 \<and> (yieldsNoHeader sst p ''.rdata'' \<and> yieldsHeader sst p ''.text'' sec d tab
      \<longrightarrow> getPCLNTABDataImpl sst p = Inr (tabAddress p sec d tab, tab))
 \<and> (yieldsNoHeader sst p ''.rdata'' \<and> yieldsNoHeader sst p ''.text''
      \<longrightarrow> getPCLNTABDataImpl sst p = Inl ErrNoPCLNTab)
 \<and> (unreadable p ''.rdata'' e \<longrightarrow> getPCLNTABDataImpl sst p = Inl e)
 \<and> (yieldsNoHeader sst p ''.rdata'' \<and> unreadable p ''.text'' e
      \<longrightarrow> getPCLNTABDataImpl sst p = Inl e)
 \<and> (d = pre @ tab
      \<longrightarrow> tabAddress p sec d tab
          = peFile_imageBase p + ucast (Section_VirtualAddress sec + of_nat (length pre)))"
  by (auto simp: getPCLNTABDataImpl_def searchForPCLNTab_def yieldsHeader_def yieldsNoHeader_def
        unreadable_def tabAddress_def split: option.splits sum.splits)

theorem getPCLNTABDataImpl_scan_witness:
  "getPCLNTABDataImpl ex_searchSectionForTab ex_pe_rdata = Inr (0x402200, ex_header)
   \<and> getPCLNTABDataImpl ex_searchSectionForTab ex_pe_text = Inr (0x401002, ex_header)
   \<and> getPCLNTABDataImpl ex_searchSectionForTab ex_pe = Inl ErrNoPCLNTab
   \<and> getPCLNTABDataImpl ex_searchSectionForTab ex_pe_unreadable = Inl (OSError ''unexpected EOF'')
   \<and> getPCLNTABDataImpl ex_searchSectionForTab ex_pe_text_unreadable
       = Inl (OSError ''unexpected EOF'')"
proof -
  let ?sst = ex_searchSectionForTab
  let ?rdata = "\<lparr>Section_Name = ''.rdata'', Section_VirtualAddress = 0x2000, Section_Size = 0x20a,
                 Section_Offset = 0x600, Section_Data = Inr (replicate 0x200 0 @ ex_header)\<rparr>"
  let ?text = "\<lparr>Section_Name = ''.text'', Section_VirtualAddress = 0x1000, Section_Size = 12,
                Section_Offset = 0x400, Section_Data = Inr ([0x90, 0x90] @ ex_header)\<rparr>"
  have a: "yieldsHeader ?sst ex_pe_rdata ''.rdata'' ?rdata (replicate 0x200 0 @ ex_header) ex_header"
    by (simp add: yieldsHeader_def ex_pe_files ex_searchSectionForTab_def scanForTab_skip_zeros
          scanForTab_ex_header)
  have b1: "yieldsNoHeader ?sst ex_pe_text ''.rdata''"
    by (simp add: yieldsNoHeader_def ex_pe_files ex_searchSectionForTab_def validHeader_def
          ex_magics_def)
  have b2: "yieldsHeader ?sst ex_pe_text ''.text'' ?text ([0x90, 0x90] @ ex_header) ex_header"
    by (simp add: yieldsHeader_def ex_pe_files ex_searchSectionForTab_def validHeader_def
          ex_magics_def ex_header_def)
  have c1: "yieldsNoHeader ?sst ex_pe ''.rdata''"
    by (simp add: yieldsNoHeader_def ex_pe_files)
  have c2: "yieldsNoHeader ?sst ex_pe ''.text''"
    by (simp add: yieldsNoHeader_def ex_pe_files ex_searchSectionForTab_def validHeader_def
          ex_magics_def)
  have d: "unreadable ex_pe_unreadable ''.rdata'' (OSError ''unexpected EOF'')"
    by (simp add: unreadable_def ex_pe_files)
  have e1: "yieldsNoHeader ?sst ex_pe_text_unreadable ''.rdata''"
    by (simp add: yieldsNoHeader_def ex_pe_files)
  have e2: "unreadable ex_pe_text_unreadable ''.text'' (OSError ''unexpected EOF'')"
    by (simp add: unreadable_def ex_pe_files)
  have A: "getPCLNTABDataImpl ?sst ex_pe_rdata = Inr (0x402200, ex_header)"
    using a getPCLNTABDataImpl_scan [of ?sst ex_pe_rdata ?rdata "replicate 0x200 0 @ ex_header"
              ex_header _ "replicate 0x200 0"]
    by (simp add: ex_pe_rdata_def ex_pe_def)
  have B: "getPCLNTABDataImpl ?sst ex_pe_text = Inr (0x401002, ex_header)"
    using b1 b2 getPCLNTABDataImpl_scan [of ?sst ex_pe_text ?text "[0x90, 0x90] @ ex_header"
                  ex_header _ "[0x90, 0x90]"]
    by (simp add: ex_pe_text_def ex_pe_def)
  have C: "getPCLNTABDataImpl ?sst ex_pe = Inl ErrNoPCLNTab"
    using c1 c2 getPCLNTABDataImpl_scan [of ?sst ex_pe] by simp
  have D: "getPCLNTABDataImpl ?sst ex_pe_unreadable = Inl (OSError ''unexpected EOF'')"
    using d getPCLNTABDataImpl_scan [of ?sst ex_pe_unreadable _ _ _ "OSError ''unexpected EOF''"]
    by simp
  have E: "getPCLNTABDataImpl ?sst ex_pe_text_unreadable = Inl (OSError ''unexpected EOF'')"
    using e1 e2
      getPCLNTABDataImpl_scan [of ?sst ex_pe_text_unreadable _ _ _ "OSError ''unexpected EOF''"]
    by simp
  show ?thesis using A B C D E by simp
qed

subsection \<open>Opening a file\<close>

lemma File_Read_short:
  "File_Read c 4 = (if c = [] then (replicate 4 0, 0, Some EOF) else (take 4 c @ replicate (4 - length c) 0, min 4 (length c), None))"
  by (simp add: File_Read_def)

lemma magic_prefix:
  "length m \<le> 4 \<Longrightarrow> fileMagicMatch (take 4 c) m = fileMagicMatch c m"
  by (simp add: fileMagicMatch_def min_def)

text \<open>
  C8, as the specification states it, fails for the empty file, which is shorter than 4 bytes: the
  read reports the end of the file, and \<open>Open\<close> returns that error, not the
  not-enough-bytes-read error.
\<close>

theorem Open_empty_counterexample:
  "Open ex_world ''empty'' = Return (Inl EOF) \<and> EOF \<noteq> ErrNotEnoughBytesRead"
  by (simp add: Open_def ex_world_def File_Read_def maxMagicBufLen_def)

text \<open>
  C8, amended: for a file that opens and seeks, \<open>Open\<close> on an empty file fails with
  \<open>io.EOF\<close>, on a file of 1 to 3 bytes with the not-enough-bytes-read error, and on a
  file of at least 4 bytes whose prefix matches none of the ELF, PE and Mach-O magics
  with the unsupported-file error.
\<close>

theorem Open_magic_errors:
  assumes opn: "os_Open w filePath = Inr f" and seek: "osFile_Seek f = None"
  shows "(osFile_contents f = [] \<longrightarrow> Open w filePath = Return (Inl EOF))
       \<and> (osFile_contents f \<noteq> [] \<and> length (osFile_contents f) < 4
            \<longrightarrow> Open w filePath = Return (Inl ErrNotEnoughBytesRead))
       \<and> (4 \<le> length (osFile_contents f)
            \<and> \<not> fileMagicMatch (osFile_contents f) elfMagic
            \<and> \<not> fileMagicMatch (osFile_contents f) peMagic
            \<and> \<not> fileMagicMatch (osFile_contents f) machoMagic1
            \<and> \<not> fileMagicMatch (osFile_contents f) machoMagic2
            \<and> \<not> fileMagicMatch (osFile_contents f) machoMagic3
            \<and> \<not> fileMagicMatch (osFile_contents f) machoMagic4
            \<longrightarrow> Open w filePath = Return (Inl ErrUnsupportedFile))"
proof -
  have len: "length elfMagic \<le> 4" "length peMagic \<le> 4" "length machoMagic1 \<le> 4"
    "length machoMagic2 \<le> 4" "length machoMagic3 \<le> 4" "length machoMagic4 \<le> 4"
    by (simp_all add: elfMagic_def peMagic_def machoMagic1_def machoMagic2_def machoMagic3_def machoMagic4_def)
  show ?thesis
    using opn seek
    by (auto simp: Open_def File_Read_short magic_prefix len maxMagicBufLen_def)
qed

theorem Open_magic_errors_witness:
  "Open ex_world ''empty'' = Return (Inl EOF)
   \<and> Open ex_world ''short'' = Return (Inl ErrNotEnoughBytesRead)
   \<and> Open ex_world ''notes.txt'' = Return (Inl ErrUnsupportedFile)"
proof -
  have e: "os_Open ex_world ''empty'' = Inr \<lparr>osFile_contents = [], osFile_Seek = None\<rparr>"
    by (simp add: ex_world_def)
  have s: "os_Open ex_world ''short'' = Inr \<lparr>osFile_contents = [0x4d, 0x5a], osFile_Seek = None\<rparr>"
    by (simp add: ex_world_def)
  have n: "os_Open ex_world ''notes.txt''
           = Inr \<lparr>osFile_contents = [0x68, 0x65, 0x6c, 0x6c, 0x6f], osFile_Seek = None\<rparr>"
    by (simp add: ex_world_def)
  have E: "Open ex_world ''empty'' = Return (Inl EOF)"
    using Open_magic_errors [OF e] by simp
  have S: "Open ex_world ''short'' = Return (Inl ErrNotEnoughBytesRead)"
    using Open_magic_errors [OF s] by simp
  have N: "Open ex_world ''notes.txt'' = Return (Inl ErrUnsupportedFile)"
    using Open_magic_errors [OF n]
    by (simp add: fileMagicMatch_def elfMagic_def peMagic_def machoMagic1_def machoMagic2_def
          machoMagic3_def machoMagic4_def)
  show ?thesis using E S N by simp
qed

subsection \<open>The packages of the line table\<close>

lemma enumStep_other: "k \<noteq> Func_PackageName n \<Longrightarrow> map_of (enumStep tab pkgs n) k = map_of pkgs k"
  by (simp add: enumStep_def Let_def update_conv')

lemma enumStep_old:
  "map_of pkgs (Func_PackageName n) = Some q
   \<Longrightarrow> \<exists>q'. map_of (enumStep tab pkgs n) (Func_PackageName n) = Some q' \<and> Package_Filepath q' = Package_Filepath q"
  by (simp add: enumStep_def Let_def update_conv')

lemma enumStep_new:
  "map_of pkgs (Func_PackageName n) = None
   \<Longrightarrow> \<exists>q'. map_of (enumStep tab pkgs n) (Func_PackageName n) = Some q' \<and> Package_Filepath q' = spec_Filepath tab n"
  by (simp add: enumStep_def Let_def update_conv' spec_Filepath_def)

lemma enumStep_keeps:
  "map_of pkgs k = Some q
   \<Longrightarrow> \<exists>q'. map_of (enumStep tab pkgs n) k = Some q' \<and> Package_Filepath q' = Package_Filepath q"
  by (cases "k = Func_PackageName n") (simp_all add: enumStep_old enumStep_other)

lemma foldl_keeps:
  "map_of pkgs k = Some q
   \<Longrightarrow> \<exists>q'. map_of (foldl (enumStep tab) pkgs fs) k = Some q' \<and> Package_Filepath q' = Package_Filepath q"
proof (induction fs arbitrary: pkgs q)
  case Nil
  then show ?case by simp
next
  case (Cons n fs)
  from enumStep_keeps [OF Cons.prems, of tab n]
  obtain q1 where q1: "map_of (enumStep tab pkgs n) k = Some q1" "Package_Filepath q1 = Package_Filepath q"
    by blast
  from Cons.IH [OF q1(1)] q1(2) show ?case by simp
qed

lemma foldl_first:
  "map_of pkgs k = None \<Longrightarrow> find (\<lambda>g. Func_PackageName g = k) fs = Some g0
   \<Longrightarrow> \<exists>q'. map_of (foldl (enumStep tab) pkgs fs) k = Some q' \<and> Package_Filepath q' = spec_Filepath tab g0"
proof (induction fs arbitrary: pkgs)
  case Nil
  then show ?case by simp
next
  case (Cons n fs)
  show ?case
  proof (cases "Func_PackageName n = k")
    case True
    then have g0: "g0 = n" using Cons.prems(2) by simp
    from enumStep_new [of pkgs n tab] True Cons.prems(1)
    obtain q1 where q1: "map_of (enumStep tab pkgs n) k = Some q1" "Package_Filepath q1 = spec_Filepath tab n"
      by auto
    from foldl_keeps [OF q1(1), of tab fs] q1(2) g0 show ?thesis by simp
  next
    case False
    then have a: "map_of (enumStep tab pkgs n) k = None"
      using Cons.prems(1) by (simp add: enumStep_other)
    have b: "find (\<lambda>g. Func_PackageName g = k) fs = Some g0"
      using False Cons.prems(2) by simp
    from Cons.IH [OF a b] show ?thesis by simp
  qed
qed

lemma enumStep_keys:
  "map fst (enumStep tab pkgs n) =
     (if Func_PackageName n \<in> set (map fst pkgs) then map fst pkgs else map fst pkgs @ [Func_PackageName n])"
  by (simp add: enumStep_def Let_def update_keys)

lemma foldl_keys:
  "distinct (map fst pkgs)
   \<Longrightarrow> distinct (map fst (foldl (enumStep tab) pkgs fs))
       \<and> set (map fst (foldl (enumStep tab) pkgs fs)) = set (map fst pkgs) \<union> Func_PackageName ` set fs"
proof (induction fs arbitrary: pkgs)
  case Nil
  then show ?case by simp
next
  case (Cons n fs)
  have d: "distinct (map fst (enumStep tab pkgs n))"
    using Cons.prems by (simp add: enumStep_keys)
  have s: "set (map fst (enumStep tab pkgs n)) = insert (Func_PackageName n) (set (map fst pkgs))"
    by (auto simp: enumStep_keys)
  from Cons.IH [OF d] s show ?case by auto
qed

lemma classifyStep_inv:
  assumes "\<forall>p \<in> set (allPackages f). P p"
      and "\<And>q. map_of packages n = Some q \<Longrightarrow> P (q\<lparr>Package_Name := n\<rparr>)"
  shows "\<forall>p \<in> set (allPackages (classifyStep w c packages f n)). P p"
  using assms
  by (auto simp: classifyStep_def allPackages_def Let_def split: option.splits PackageClass.splits)

lemma classifyLoop_inv:
  assumes "\<forall>p \<in> set (allPackages f). P p"
      and "\<And>n q. map_of packages n = Some q \<Longrightarrow> P (q\<lparr>Package_Name := n\<rparr>)"
  shows "\<forall>p \<in> set (allPackages (foldl (classifyStep w c packages) f ks)). P p"
  using assms(1)
proof (induction ks arbitrary: f)
  case Nil
  then show ?case by simp
next
  case (Cons n ks)
  have "\<forall>p \<in> set (allPackages (classifyStep w c packages f n)). P p"
    by (rule classifyStep_inv [OF Cons.prems]) (rule assms(2))
  from Cons.IH [OF this] show ?case by simp
qed

lemma enumPackages_tab_filepath:
  assumes empty: "allPackages f = []"
      and res: "enumPackages_tab w tab f = (None, f')"
      and p: "p \<in> set (allPackages f')"
  shows "\<exists>g0. find (\<lambda>g. Func_PackageName g = Package_Name p) (Table_Funcs tab) = Some g0
              \<and> Package_Filepath p = spec_Filepath tab g0"
proof -
  let ?P = "\<lambda>p. \<exists>g0. find (\<lambda>g. Func_PackageName g = Package_Name p) (Table_Funcs tab) = Some g0
              \<and> Package_Filepath p = spec_Filepath tab g0"
  have step: "?P (q\<lparr>Package_Name := n\<rparr>)" if q: "map_of (enumLoop tab) n = Some q" for n q
  proof -
    have "n \<in> set (map fst (enumLoop tab))"
      using q by (metis map_of_eq_None_iff option.distinct(1) set_map)
    then have "n \<in> Func_PackageName ` set (Table_Funcs tab)"
      using foldl_keys [of "[]" tab "Table_Funcs tab"] by (simp add: enumLoop_def)
    then obtain g0 where g0: "find (\<lambda>g. Func_PackageName g = n) (Table_Funcs tab) = Some g0"
      by (cases "find (\<lambda>g. Func_PackageName g = n) (Table_Funcs tab)") (auto simp: find_None_iff)
    from foldl_first [of "[]" n "Table_Funcs tab" g0 tab] g0 q
    have "Package_Filepath q = spec_Filepath tab g0" by (simp add: enumLoop_def)
    with g0 show ?thesis by simp
  qed
  have init: "\<forall>p \<in> set (allPackages f). ?P p" using empty by simp
  obtain c where f': "f' = foldl (classifyStep w c (enumLoop tab)) f (rangeOrder w (map fst (enumLoop tab)))"
    using res by (auto simp: enumPackages_tab_def Let_def split: option.splits sum.splits)
  have "\<forall>p \<in> set (allPackages f'). ?P p"
    unfolding f' by (rule classifyLoop_inv [OF init]) (rule step)
  with p show ?thesis by blast
qed

text \<open>
  C9: the first loop of \<open>enumPackages\<close> holds one package for each package name of the
  line table and no other. The path of a package is the one its first function gives:
  the directory of the file of that function's entry point, the file itself when that is
  \<open><autogenerated>\<close> or empty. No round of the loop changes the path of a package that
  exists already, and the packages in the lists of the handle carry that path.
\<close>

theorem enumPackages_filepath:
  "distinct (map fst (enumLoop tab))
   \<and> set (map fst (enumLoop tab)) = Func_PackageName ` set (Table_Funcs tab)
   \<and> (find (\<lambda>g. Func_PackageName g = k) (Table_Funcs tab) = Some g0
        \<longrightarrow> (\<exists>p. map_of (enumLoop tab) k = Some p \<and> Package_Filepath p = spec_Filepath tab g0))
   \<and> (map_of pkgs k = Some q
        \<longrightarrow> (\<exists>q'. map_of (enumStep tab pkgs n) k = Some q' \<and> Package_Filepath q' = Package_Filepath q))
   \<and> (allPackages f = [] \<and> enumPackages_tab w tab f = (None, f') \<and> p \<in> set (allPackages f')
        \<longrightarrow> (\<exists>g. find (\<lambda>g. Func_PackageName g = Package_Name p) (Table_Funcs tab) = Some g
                 \<and> Package_Filepath p = spec_Filepath tab g))"
  using foldl_keys [of "[]" tab "Table_Funcs tab"] foldl_first [of "[]" k "Table_Funcs tab" g0 tab]
    enumStep_keeps [of pkgs k q tab n] enumPackages_tab_filepath [of f w tab f' p]
  by (simp add: enumLoop_def)

theorem enumPackages_filepath_witness:
  "Package_Filepath (the (map_of (enumLoop ex_table) ''main'')) = ''/home/u/proj/cmd''
   \<and> Package_Filepath (the (map_of (enumStep ex_table [(''main'', ex_main)] ex_run_func) ''main''))
       = ''/home/u/proj/cmd''
   \<and> ex_main \<in> set (allPackages (snd (enumPackages_tab ex_world ex_table ex_gofile)))
   \<and> spec_Filepath ex_table ex_main_func = ''/home/u/proj/cmd''"
proof -
  let ?f' = "snd (enumPackages_tab ex_world ex_table ex_gofile)"
  have fnd: "find (\<lambda>g. Func_PackageName g = ''main'') (Table_Funcs ex_table) = Some ex_main_func"
    by (simp add: ex_table_def ex_main_func_def)
  have sf: "spec_Filepath ex_table ex_main_func = ''/home/u/proj/cmd''"
    by code_simp
  have old: "map_of [(''main'', ex_main)] ''main'' = Some ex_main" by simp
  have emp: "allPackages ex_gofile = []"
    by (simp add: allPackages_def ex_gofile_def newGoFile_def)
  have "fst (enumPackages_tab ex_world ex_table ex_gofile) = None"
    by code_simp
  then have res: "enumPackages_tab ex_world ex_table ex_gofile = (None, ?f')"
    by (simp add: prod_eq_iff)
  have mem: "ex_main \<in> set (allPackages ?f')"
    by code_simp
  note T = enumPackages_filepath [of ex_table "''main''" ex_main_func "[(''main'', ex_main)]" ex_main
               ex_run_func ex_gofile ex_world ?f' ex_main]
  have A: "Package_Filepath (the (map_of (enumLoop ex_table) ''main'')) = ''/home/u/proj/cmd''"
    using T fnd sf by auto
  have B: "Package_Filepath (the (map_of (enumStep ex_table [(''main'', ex_main)] ex_run_func) ''main''))
       = ''/home/u/proj/cmd''"
    using T old by (auto simp: ex_main_def)
  have C: "find (\<lambda>g. Func_PackageName g = Package_Name ex_main) (Table_Funcs ex_table) = Some ex_main_func"
    using T emp res mem fnd by (simp add: ex_main_def)
  show ?thesis using A B C mem sf by simp
qed

subsection \<open>The path-based classifier\<close>

lemma Classify_main_folder: "\<not> earlierRule std c pkg \<Longrightarrow> pathDir (Package_Filepath pkg) \<in> set (mainFolders c)
   \<Longrightarrow> PathPackageClassifier_Classify std c pkg = ClassMain"
  by (simp add: PathPackageClassifier_Classify_def earlierRule_def Let_def list_ex_iff del: IsStandardLibrary.simps)

lemma enumPackages_tab_no_main: 
  assumes "(case GoFile_BuildInfo f of None \<Rightarrow> None | Some bi \<Rightarrow> BuildInfo_ModInfo bi) = None"
    and "''main'' \<notin> Func_PackageName ` set (Table_Funcs tab)"
  shows "enumPackages_tab w tab f = (Some (Errorf ''no main package found''), f)"
proof -
  have "''main'' \<notin> set (map fst (enumLoop tab))"
    using assms(2) foldl_keys [of "[]" tab "Table_Funcs tab"] by (simp add: enumLoop_def)
  then have "map_of (enumLoop tab) ''main'' = None"
    by (simp add: map_of_eq_None_iff)
  then show ?thesis using assms(1) by (simp add: enumPackages_tab_def Let_def)
qed


text \<open>
  C5, as the specification states it, fails: for the main path \<open>/home/u/proj/cmd\<close> the main
  folders are \<open>/home/u/proj\<close> and \<open>/home/u/proj/cmd\<close>; the grandparent \<open>/home/u\<close> is
  not one of them, and a package whose parent directory is \<open>/home/u\<close> is classified
  Unknown. And a package whose parent directory is a main folder is not always Main: for
  the main path \<open>/usr/local/go/src/hello\<close> the package \<open>os\<close> in \<open>/usr/local/go/src/os\<close>
  is classified as standard library by an earlier rule.
\<close>

theorem path_classifier_counterexample:
  "mainFolders (NewPathPackageClassifier ''/home/u/proj/cmd'') = [''/home/u/proj'', ''/home/u/proj/cmd'']
   \<and> pathDir (pathDir ''/home/u/proj/cmd'') = ''/home/u''
   \<and> pathDir (Package_Filepath ex_x) = ''/home/u''
   \<and> PathPackageClassifier_Classify (stdPkgs ex_world) (NewPathPackageClassifier ''/home/u/proj/cmd'') ex_x
       = ClassUnknown
   \<and> mainFolders (NewPathPackageClassifier ''/usr/local/go/src/hello'')
       = [''/usr/local/go/src'', ''/usr/local/go/src/hello'']
   \<and> pathDir (Package_Filepath ex_os) = ''/usr/local/go/src''
   \<and> PathPackageClassifier_Classify (stdPkgs ex_world) (NewPathPackageClassifier ''/usr/local/go/src/hello'')
         ex_os
       = ClassSTD"
  by code_simp

text \<open>
  C5, amended: the main folders of the path-based classifier are the directory of the
  main package's path (\<open>path.Dir\<close>) and that path itself, cleaned (\<open>path.Clean\<close>). A
  package that none of the earlier rules classifies and whose parent directory is one of
  the two is classified Main. Without module information, package enumeration fails with
  "no main package found" when the table has no package \<open>main\<close>, and otherwise classifies
  with the classifier made from the path of the package \<open>main\<close>.
\<close>

theorem path_classifier_main_folders:
  "mainFolders (NewPathPackageClassifier fp) = [pathDir fp, pathClean fp]
   \<and> (\<not> earlierRule std (NewPathPackageClassifier fp) pkg
        \<and> (pathDir (Package_Filepath pkg) = pathDir fp \<or> pathDir (Package_Filepath pkg) = pathClean fp)
       \<longrightarrow> PathPackageClassifier_Classify std (NewPathPackageClassifier fp) pkg = ClassMain)
   \<and> (noModInfo f \<and> ''main'' \<notin> Func_PackageName ` set (Table_Funcs tab)
       \<longrightarrow> enumPackages_tab w tab f = (Some (Errorf ''no main package found''), f))
   \<and> (noModInfo f \<and> map_of (enumLoop tab) ''main'' = Some mainPkg
       \<longrightarrow> enumPackages_tab w tab f
           = (None, foldl (classifyStep w (PathClassifier (NewPathPackageClassifier (Package_Filepath mainPkg)))
                             (enumLoop tab))
                      f (rangeOrder w (map fst (enumLoop tab)))))"
proof -
  have mf: "mainFolders (NewPathPackageClassifier fp) = [pathDir fp, pathClean fp]"
    by (simp add: NewPathPackageClassifier_def)
  have r8: "PathPackageClassifier_Classify std (NewPathPackageClassifier fp) pkg = ClassMain"
    if "\<not> earlierRule std (NewPathPackageClassifier fp) pkg"
       "pathDir (Package_Filepath pkg) = pathDir fp \<or> pathDir (Package_Filepath pkg) = pathClean fp"
    using that Classify_main_folder [of std "NewPathPackageClassifier fp" pkg] mf by auto
  have nm: "enumPackages_tab w tab f = (Some (Errorf ''no main package found''), f)"
    if "noModInfo f" "''main'' \<notin> Func_PackageName ` set (Table_Funcs tab)"
    using that enumPackages_tab_no_main [of f tab w] by (simp add: noModInfo_def)
  have wm: "enumPackages_tab w tab f
           = (None, foldl (classifyStep w (PathClassifier (NewPathPackageClassifier (Package_Filepath mainPkg)))
                             (enumLoop tab))
                      f (rangeOrder w (map fst (enumLoop tab))))"
    if "noModInfo f" "map_of (enumLoop tab) ''main'' = Some mainPkg"
    using that by (simp add: enumPackages_tab_def noModInfo_def Let_def)
  show ?thesis using mf r8 nm wm by blast
qed

theorem path_classifier_main_folders_witness:
  "PathPackageClassifier_Classify (stdPkgs ex_world) (NewPathPackageClassifier ''/home/u/proj/cmd'') ex_sub
     = ClassMain
   \<and> PathPackageClassifier_Classify (stdPkgs ex_world) (NewPathPackageClassifier ''/home/u/proj/cmd'') ex_main
     = ClassMain
   \<and> enumPackages_tab ex_world ex_table_nomain ex_gofile = (Some (Errorf ''no main package found''), ex_gofile)
   \<and> GoFile_pkgs (snd (enumPackages_tab ex_world ex_table ex_gofile)) = [ex_main]"
proof -
  let ?fp = "''/home/u/proj/cmd''"
  let ?m = "ex_main\<lparr>Package_Name := []\<rparr>"
  note T1 = path_classifier_main_folders [of ?fp "stdPkgs ex_world" ex_sub ex_gofile ex_table_nomain
              ex_world ?m]
  note T2 = path_classifier_main_folders [of ?fp "stdPkgs ex_world" ex_main ex_gofile ex_table
              ex_world ?m]
  have e1: "\<not> earlierRule (stdPkgs ex_world) (NewPathPackageClassifier ?fp) ex_sub" by code_simp
  have p1: "pathDir (Package_Filepath ex_sub) = pathClean ?fp" by code_simp
  have e2: "\<not> earlierRule (stdPkgs ex_world) (NewPathPackageClassifier ?fp) ex_main" by code_simp
  have p2: "pathDir (Package_Filepath ex_main) = pathDir ?fp" by code_simp
  have nmi: "noModInfo ex_gofile" by (simp add: noModInfo_def ex_gofile_def newGoFile_def)
  have nomain: "''main'' \<notin> Func_PackageName ` set (Table_Funcs ex_table_nomain)"
    by (simp add: ex_table_nomain_def)
  have main: "map_of (enumLoop ex_table) ''main'' = Some ?m" by code_simp
  have A: "PathPackageClassifier_Classify (stdPkgs ex_world) (NewPathPackageClassifier ?fp) ex_sub = ClassMain"
    using T1 e1 p1 by simp
  have B: "PathPackageClassifier_Classify (stdPkgs ex_world) (NewPathPackageClassifier ?fp) ex_main = ClassMain"
    using T2 e2 p2 by simp
  have C: "enumPackages_tab ex_world ex_table_nomain ex_gofile = (Some (Errorf ''no main package found''), ex_gofile)"
    using T1 nmi nomain by simp
  have "enumPackages_tab ex_world ex_table ex_gofile
          = (None, foldl (classifyStep ex_world (PathClassifier (NewPathPackageClassifier (Package_Filepath ?m)))
                             (enumLoop ex_table))
                      ex_gofile (rangeOrder ex_world (map fst (enumLoop ex_table))))"
    using T2 nmi main by simp
  moreover have "GoFile_pkgs (foldl (classifyStep ex_world (PathClassifier (NewPathPackageClassifier (Package_Filepath ?m)))
                             (enumLoop ex_table))
                      ex_gofile (rangeOrder ex_world (map fst (enumLoop ex_table)))) = [ex_main]"
    by code_simp
  ultimately have D: "GoFile_pkgs (snd (enumPackages_tab ex_world ex_table ex_gofile)) = [ex_main]"
    by simp
  show ?thesis using A B C D by simp
qed

subsection \<open>The one-shot gates\<close>

lemma ensureCompilerVersion_frame:
  "GoFile_log (snd (ensureCompilerVersion w f)) = GoFile_log f"
  "GoFile_initPackagesOnce (snd (ensureCompilerVersion w f)) = GoFile_initPackagesOnce f"
  "GoFile_fh (snd (ensureCompilerVersion w f)) = GoFile_fh f"
  by (simp_all add: ensureCompilerVersion_def tryExtractCompilerVersion_def Let_def split: sum.splits)

lemma initModuleData_done:
  "GoFile_initModuleDataOnce f \<Longrightarrow> initModuleData w f = (GoFile_initModuleDataError f, f)"
  by (simp add: initModuleData_def)

lemma initModuleData_result:
  "initModuleData w f = (e, f1) \<Longrightarrow> GoFile_initModuleDataOnce f1 \<and> GoFile_initModuleDataError f1 = e"
  by (auto simp: initModuleData_def Let_def split: if_splits)

lemma initModuleData_idem:
  "initModuleData w f = (e, f1) \<Longrightarrow> initModuleData w f1 = (e, f1)"
  using initModuleData_result [of w f e f1] by (simp add: initModuleData_done)

lemma initModuleData_fresh:
  "\<not> GoFile_initModuleDataOnce f \<Longrightarrow> initModuleData w f = (e, f1)
   \<Longrightarrow> GoFile_log f1 = GoFile_log f @ [CallExtractModuledata]
       \<and> GoFile_initPackagesOnce f1 = GoFile_initPackagesOnce f"
  by (auto simp: initModuleData_def initModuleData_body_def Let_def ensureCompilerVersion_frame)

lemma Moduledata_idem:
  "Moduledata w f = (r, f1) \<Longrightarrow> Moduledata w f1 = (r, f1)"
  by (cases "initModuleData w f")
     (auto simp: Moduledata_def initModuleData_idem split: option.splits)

lemma PCLNTab_again:
  assumes "PCLNTab w f = (Inr tab, f1)"
  shows "PCLNTab w f1 = (Inr tab, f1\<lparr>GoFile_log := GoFile_log f1 @ [CallNewTable]\<rparr>)"
proof -
  obtain e f' where i: "initModuleData w f = (e, f')" by (cases "initModuleData w f")
  from assms i have e: "e = None"
    by (auto simp: PCLNTab_def split: option.splits)
  from assms i e obtain a data where
    d: "getPCLNTABData (GoFile_fh f') = Inr (a, data)"
    and t: "gosym_NewTable w data (moduledata_TextAddr (GoFile_moduledata f')) = Inr tab"
    and f1: "f1 = f'\<lparr>GoFile_log := GoFile_log f' @ [CallNewTable]\<rparr>"
    by (auto simp: PCLNTab_def split: sum.splits)
  from initModuleData_result [OF i] e
  have "initModuleData w f1 = (None, f1)"
    by (simp add: f1 initModuleData_def)
  then show ?thesis using d t by (simp add: PCLNTab_def f1)
qed

lemma PCLNTab_log:
  assumes "\<not> GoFile_initModuleDataOnce f" and "PCLNTab w f = (r, f1)"
  shows "(GoFile_log f1 = GoFile_log f @ [CallExtractModuledata]
          \<or> GoFile_log f1 = GoFile_log f @ [CallExtractModuledata, CallNewTable])
       \<and> ((\<exists>tab. r = Inr tab) \<longrightarrow> GoFile_log f1 = GoFile_log f @ [CallExtractModuledata, CallNewTable])
       \<and> GoFile_initPackagesOnce f1 = GoFile_initPackagesOnce f"
proof -
  obtain e f' where i: "initModuleData w f = (e, f')" by (cases "initModuleData w f")
  from initModuleData_fresh [OF assms(1) i] assms(2) i show ?thesis
    by (auto simp: PCLNTab_def split: option.splits sum.splits)
qed

lemma classifyStep_frame:
  "GoFile_log (classifyStep w c packages f n) = GoFile_log f"
  "GoFile_initPackagesOnce (classifyStep w c packages f n) = GoFile_initPackagesOnce f"
  "GoFile_initModuleDataOnce (classifyStep w c packages f n) = GoFile_initModuleDataOnce f"
  by (simp_all add: classifyStep_def Let_def split: option.splits PackageClass.splits)

lemma classifyLoop_frame:
  "GoFile_log (foldl (classifyStep w c packages) f ks) = GoFile_log f"
  by (induction ks arbitrary: f) (simp_all add: classifyStep_frame)

lemma enumPackages_tab_log:
  "GoFile_log (snd (enumPackages_tab w tab f)) = GoFile_log f"
  by (simp add: enumPackages_tab_def Let_def classifyLoop_frame split: option.splits sum.splits)

lemma initPackages_returns: "\<exists>e f1. initPackages w f = Return (e, f1)"
  by (auto simp: initPackages_def initPackages_body_def enumPackages_def split: prod.splits sum.splits)

lemma initPackages_result:
  "initPackages w f = Return (e, f1)
   \<Longrightarrow> GoFile_initPackagesOnce f1 \<and> GoFile_initPackagesError f1 = e"
  by (auto simp: initPackages_def split: if_splits outcome.splits)

lemma initPackages_idem:
  "initPackages w f = Return (e, f1) \<Longrightarrow> initPackages w f1 = Return (e, f1)"
  using initPackages_result [of w f e f1] by (simp add: initPackages_def)


lemma initPackages_log:
  assumes f: "fresh f" and r: "initPackages w f = Return (e, f1)"
  shows "(GoFile_log f1 = [CallExtractModuledata]
          \<or> GoFile_log f1 = [CallExtractModuledata, CallNewTable]
          \<or> GoFile_log f1 = [CallExtractModuledata, CallNewTable, CallEnumPackages])
       \<and> (e = None \<longrightarrow> GoFile_log f1 = [CallExtractModuledata, CallNewTable, CallEnumPackages])"
proof -
  obtain t f' where p: "PCLNTab w f = (t, f')" by (cases "PCLNTab w f")
  have nd: "\<not> GoFile_initModuleDataOnce f" "\<not> GoFile_initPackagesOnce f" "GoFile_log f = []"
    using f by (simp_all add: fresh_def)
  note L = PCLNTab_log [OF nd(1) p]
  show ?thesis
  proof (cases t)
    case (Inl err)
    then show ?thesis using r p nd L
      by (auto simp: initPackages_def initPackages_body_def)
  next
    case (Inr tab)
    then have lg: "GoFile_log f' = [CallExtractModuledata, CallNewTable]"
      using L nd by simp
    obtain e2 f2 where en: "enumPackages_tab w tab (f'\<lparr>GoFile_pclntab := Some tab\<rparr>) = (e2, f2)"
      by (cases "enumPackages_tab w tab (f'\<lparr>GoFile_pclntab := Some tab\<rparr>)")
    have "GoFile_log f2 = GoFile_log f'"
      using enumPackages_tab_log [of w tab "f'\<lparr>GoFile_pclntab := Some tab\<rparr>"] en by simp
    then show ?thesis using r p nd Inr lg en
      by (auto simp: initPackages_def initPackages_body_def enumPackages_def)
  qed
qed

lemma GetPackages_times_same:
  assumes "GetPackages w f = Return (r, f1)"
  shows "GetPackages_times w (Suc n) f = Return (replicate (Suc n) r, f1)"
proof -
  obtain e where i: "initPackages w f = Return (e, f1)" and r: "r = (GoFile_pkgs f1, e)"
    using assms by (auto simp: GetPackages_def split: outcome.splits)
  have again: "GetPackages w f1 = Return (r, f1)"
    using initPackages_idem [OF i] r by (simp add: GetPackages_def)
  have "GetPackages_times w m f1 = Return (replicate m r, f1)" for m
    by (induction m) (simp_all add: again)
  then show ?thesis using assms by simp
qed

lemma initSymTab_idem: "initSymTab (snd (initSymTab p)) = initSymTab p"
  by (simp add: initSymTab_def Let_def)

lemma peFile_getPCLNTABData_idem:
  "peFile_getPCLNTABData sst (snd (peFile_getPCLNTABData sst p)) = peFile_getPCLNTABData sst p"
  by (simp add: peFile_getPCLNTABData_def pclntabOnce_load_def getPCLNTABDataImpl_call_def
        split: option.splits)

lemma initModuleData_fh: "GoFile_fh (snd (initModuleData w f)) = GoFile_fh f"
  by (simp add: initModuleData_def initModuleData_body_def Let_def ensureCompilerVersion_frame)

lemma initPackages_cases:
  assumes fr: "fresh f" and r: "initPackages w f = Return (e, g)"
  shows "(fst (initModuleData w f) = Some err
            \<longrightarrow> e = Some err \<and> GoFile_log g = [CallExtractModuledata])
       \<and> (fst (initModuleData w f) = None \<and> getPCLNTABData (GoFile_fh f) = Inl err
            \<longrightarrow> e = Some err \<and> GoFile_log g = [CallExtractModuledata])
       \<and> (fst (initModuleData w f) = None \<and> getPCLNTABData (GoFile_fh f) = Inr (a, data)
            \<and> gosym_NewTable w data (moduledata_TextAddr (GoFile_moduledata (snd (initModuleData w f))))
                = Inl err
            \<longrightarrow> e = Some err \<and> GoFile_log g = [CallExtractModuledata, CallNewTable])
       \<and> (fst (initModuleData w f) = None \<and> getPCLNTABData (GoFile_fh f) = Inr (a, data)
            \<and> gosym_NewTable w data (moduledata_TextAddr (GoFile_moduledata (snd (initModuleData w f))))
                = Inr tab
            \<longrightarrow> GoFile_log g = [CallExtractModuledata, CallNewTable, CallEnumPackages])"
proof -
  obtain e0 f0 where i: "initModuleData w f = (e0, f0)" by (cases "initModuleData w f")
  have nd: "\<not> GoFile_initModuleDataOnce f" "\<not> GoFile_initPackagesOnce f" "GoFile_log f = []"
    using fr by (simp_all add: fresh_def)
  have l0: "GoFile_log f0 = [CallExtractModuledata]"
    using initModuleData_fresh [OF nd(1) i] nd by simp
  have h0: "GoFile_fh f0 = GoFile_fh f"
    using initModuleData_fh [of w f] i by simp
  show ?thesis
    using r nd(2) i l0 h0
    by (auto simp: initPackages_def initPackages_body_def PCLNTab_def enumPackages_def
             split_def enumPackages_tab_log)
qed

lemma initSymTab_done:
  "symtab_done (peFile_symtab p) \<Longrightarrow> initSymTab p = (symtab_err (peFile_symtab p), p)"
  by (simp add: initSymTab_def)

lemma initSymTab_times:
  "((\<lambda>q. snd (initSymTab q)) ^^ Suc m) p = snd (initSymTab p)"
proof (induction m)
  case 0 show ?case by simp
next
  case (Suc m)
  have "((\<lambda>q. snd (initSymTab q)) ^^ Suc (Suc m)) p = snd (initSymTab (snd (initSymTab p)))"
    using Suc by simp
  then show ?case by (simp only: initSymTab_idem)
qed

lemma initSymTab_first_log:
  "\<not> symtab_done (peFile_symtab p)
   \<Longrightarrow> peFile_log (snd (initSymTab p)) = peFile_log p @ [CallNormalizeSymbols]"
  by (simp add: initSymTab_def Let_def)

lemma peFile_getPCLNTABData_times:
  "((\<lambda>q. snd (peFile_getPCLNTABData sst q)) ^^ Suc m) p = snd (peFile_getPCLNTABData sst p)"
proof (induction m)
  case 0 show ?case by simp
next
  case (Suc m)
  have "((\<lambda>q. snd (peFile_getPCLNTABData sst q)) ^^ Suc (Suc m)) p
          = snd (peFile_getPCLNTABData sst (snd (peFile_getPCLNTABData sst p)))"
    using Suc by simp
  then show ?case by (simp only: peFile_getPCLNTABData_idem)
qed

lemma peFile_getPCLNTABData_first:
  "pcln_result (peFile_pcln p) = None
   \<Longrightarrow> fst (peFile_getPCLNTABData sst p) = getPCLNTABDataImpl sst p
       \<and> peFile_log (snd (peFile_getPCLNTABData sst p)) = peFile_log p @ [CallGetPCLNTABDataImpl]"
  by (simp add: peFile_getPCLNTABData_def pclntabOnce_load_def getPCLNTABDataImpl_call_def)

lemma peFile_getPCLNTABData_done:
  "pcln_result (peFile_pcln p) = Some r \<Longrightarrow> peFile_getPCLNTABData sst p = (r, p)"
  by (simp add: peFile_getPCLNTABData_def pclntabOnce_load_def)

lemma initModuleData_times:
  "((\<lambda>x. snd (initModuleData w x)) ^^ Suc m) f = snd (initModuleData w f)"
proof (induction m)
  case 0 show ?case by simp
next
  case (Suc m)
  have "((\<lambda>x. snd (initModuleData w x)) ^^ Suc (Suc m)) f
          = snd (initModuleData w (snd (initModuleData w f)))"
    using Suc by simp
  also have "\<dots> = snd (initModuleData w f)"
    using initModuleData_idem [of w f "fst (initModuleData w f)" "snd (initModuleData w f)"] by simp
  finally show ?case .
qed

lemma GetPackages_state:
  "(case GetPackages w f of Return (r, f1) \<Rightarrow> r = r0 | Panic v \<Rightarrow> False)
   \<Longrightarrow> GetPackages w f = Return (r0, case GetPackages w f of Return (r, f1) \<Rightarrow> f1 | Panic v \<Rightarrow> f)"
  by (cases "GetPackages w f") auto

lemma ex_gofile_rdata_pclntab:
  "getPCLNTABData (GoFile_fh ex_gofile_rdata) = Inr (0x402200, ex_header)"
  by (simp add: ex_gofile_rdata_def newGoFile_def peHandler_def
        peFile_getPCLNTABData_def pclntabOnce_load_def getPCLNTABDataImpl_call_def
        newPclnTabOnce_def getPCLNTABDataImpl_def searchForPCLNTab_def ex_pe_files
        ex_searchSectionForTab_def scanForTab_skip_zeros scanForTab_ex_header)

lemma ex_gofile_pclntab:
  "getPCLNTABData (GoFile_fh ex_gofile) = Inl ErrNoPCLNTab"
  by code_simp

text \<open>
  C2, as the specification states it, fails for \<open>PCLNTab\<close>: two calls parse the table twice.
\<close>

theorem PCLNTab_twice_counterexample:
  "GoFile_log (snd (PCLNTab ex_world (snd (PCLNTab ex_world ex_gofile_rdata))))
     = [CallExtractModuledata, CallNewTable, CallNewTable]"
  by code_simp

text \<open>
  C2, amended: \<open>GetPackages\<close> never panics, and any number of calls in a row return the
  result of the first call and leave the handle, with its log, as the first call left
  it. On a new handle the first call runs moduledata extraction once. When that fails, or
  when the handler has no table data, the call returns that error and neither the parse
  of the table nor package enumeration has run; when the parse of the table fails, the
  call returns that error, the parse has run once and enumeration not at all; otherwise
  each of the three has run once, as it has whenever the call reports no error.
  \<open>Moduledata\<close> and \<open>initModuleData\<close> are gated: on a
  handle whose gate is open a call enters one extraction in the log, on a handle whose
  gate is closed it leaves the handle as it is, and any number of calls in a row leave
  the handle as the first one left it. On a PE file \<open>initSymTab\<close> and \<open>getPCLNTABData\<close>
  are gated in the same way: a call on a file whose gate is open enters one run in the
  log of the file, a call on a file whose gate is closed gives the stored result, the
  stored error included, and leaves the file as it is, and any number of calls in a row
  leave the file as the first one left it. \<open>PCLNTab\<close> is not gated: a second call gives
  an equal table and parses once more.
\<close>

theorem one_shot_gates:
  "(\<exists>r f1. GetPackages w f = Return (r, f1)
        \<and> GetPackages_times w (Suc n) f = Return (replicate (Suc n) r, f1))
   \<and> (fresh f \<and> GetPackages w f = Return (r0, g) \<longrightarrow>
        (fst (initModuleData w f) = Some err
           \<longrightarrow> snd r0 = Some err \<and> GoFile_log g = [CallExtractModuledata])
      \<and> (fst (initModuleData w f) = None \<and> getPCLNTABData (GoFile_fh f) = Inl err
           \<longrightarrow> snd r0 = Some err \<and> GoFile_log g = [CallExtractModuledata])
      \<and> (fst (initModuleData w f) = None \<and> getPCLNTABData (GoFile_fh f) = Inr (a, data)
           \<and> gosym_NewTable w data (moduledata_TextAddr (GoFile_moduledata (snd (initModuleData w f))))
               = Inl err
           \<longrightarrow> snd r0 = Some err \<and> GoFile_log g = [CallExtractModuledata, CallNewTable])
      \<and> (fst (initModuleData w f) = None \<and> getPCLNTABData (GoFile_fh f) = Inr (a, data)
           \<and> gosym_NewTable w data (moduledata_TextAddr (GoFile_moduledata (snd (initModuleData w f))))
               = Inr tab0
           \<longrightarrow> GoFile_log g = [CallExtractModuledata, CallNewTable, CallEnumPackages])
      \<and> (snd r0 = None \<longrightarrow> GoFile_log g = [CallExtractModuledata, CallNewTable, CallEnumPackages])
      \<and> (GoFile_log g = [CallExtractModuledata]
          \<or> GoFile_log g = [CallExtractModuledata, CallNewTable]
          \<or> GoFile_log g = [CallExtractModuledata, CallNewTable, CallEnumPackages]))
   \<and> Moduledata w (snd (Moduledata w f)) = Moduledata w f
   \<and> initModuleData w (snd (initModuleData w f)) = initModuleData w f
   \<and> ((\<lambda>x. snd (initModuleData w x)) ^^ Suc n) f = snd (initModuleData w f)
   \<and> (\<not> GoFile_initModuleDataOnce f
        \<longrightarrow> GoFile_log (snd (initModuleData w f)) = GoFile_log f @ [CallExtractModuledata])
   \<and> (GoFile_initModuleDataOnce f \<longrightarrow> snd (initModuleData w f) = f)
   \<and> (PCLNTab w f = (Inr tab, f2)
        \<longrightarrow> PCLNTab w f2 = (Inr tab, f2\<lparr>GoFile_log := GoFile_log f2 @ [CallNewTable]\<rparr>))
   \<and> initSymTab (snd (initSymTab p)) = initSymTab p
   \<and> ((\<lambda>q. snd (initSymTab q)) ^^ Suc n) p = snd (initSymTab p)
   \<and> (\<not> symtab_done (peFile_symtab p)
        \<longrightarrow> peFile_log (snd (initSymTab p)) = peFile_log p @ [CallNormalizeSymbols])
   \<and> (symtab_done (peFile_symtab p) \<longrightarrow> initSymTab p = (symtab_err (peFile_symtab p), p))
   \<and> peFile_getPCLNTABData sst (snd (peFile_getPCLNTABData sst p)) = peFile_getPCLNTABData sst p
   \<and> ((\<lambda>q. snd (peFile_getPCLNTABData sst q)) ^^ Suc n) p = snd (peFile_getPCLNTABData sst p)
   \<and> (pcln_result (peFile_pcln p) = None
        \<longrightarrow> fst (peFile_getPCLNTABData sst p) = getPCLNTABDataImpl sst p
          \<and> peFile_log (snd (peFile_getPCLNTABData sst p)) = peFile_log p @ [CallGetPCLNTABDataImpl])
   \<and> (pcln_result (peFile_pcln p) = Some pr \<longrightarrow> peFile_getPCLNTABData sst p = (pr, p))"
proof -
  obtain e f1 where i: "initPackages w f = Return (e, f1)"
    using initPackages_returns by blast
  then have gp: "GetPackages w f = Return ((GoFile_pkgs f1, e), f1)"
    by (simp add: GetPackages_def)
  have A: "\<exists>r f1. GetPackages w f = Return (r, f1)
        \<and> GetPackages_times w (Suc n) f = Return (replicate (Suc n) r, f1)"
    using gp GetPackages_times_same [OF gp, of n] by blast
  have B: "(fst (initModuleData w f) = Some err
           \<longrightarrow> snd r0 = Some err \<and> GoFile_log g = [CallExtractModuledata])
      \<and> (fst (initModuleData w f) = None \<and> getPCLNTABData (GoFile_fh f) = Inl err
           \<longrightarrow> snd r0 = Some err \<and> GoFile_log g = [CallExtractModuledata])
      \<and> (fst (initModuleData w f) = None \<and> getPCLNTABData (GoFile_fh f) = Inr (a, data)
           \<and> gosym_NewTable w data (moduledata_TextAddr (GoFile_moduledata (snd (initModuleData w f))))
               = Inl err
           \<longrightarrow> snd r0 = Some err \<and> GoFile_log g = [CallExtractModuledata, CallNewTable])
      \<and> (fst (initModuleData w f) = None \<and> getPCLNTABData (GoFile_fh f) = Inr (a, data)
           \<and> gosym_NewTable w data (moduledata_TextAddr (GoFile_moduledata (snd (initModuleData w f))))
               = Inr tab0
           \<longrightarrow> GoFile_log g = [CallExtractModuledata, CallNewTable, CallEnumPackages])
      \<and> (snd r0 = None \<longrightarrow> GoFile_log g = [CallExtractModuledata, CallNewTable, CallEnumPackages])
      \<and> (GoFile_log g = [CallExtractModuledata]
          \<or> GoFile_log g = [CallExtractModuledata, CallNewTable]
          \<or> GoFile_log g = [CallExtractModuledata, CallNewTable, CallEnumPackages])"
    if fr: "fresh f" and g: "GetPackages w f = Return (r0, g)"
  proof -
    from g gp have "snd r0 = e" "g = f1" by auto
    with i have ip: "initPackages w f = Return (snd r0, g)" by simp
    from initPackages_cases [OF fr ip, of err a data tab0] initPackages_log [OF fr ip]
    show ?thesis by (intro conjI) blast+
  qed
  have C: "Moduledata w (snd (Moduledata w f)) = Moduledata w f"
    using Moduledata_idem [of w f "fst (Moduledata w f)" "snd (Moduledata w f)"] by simp
  have D: "initModuleData w (snd (initModuleData w f)) = initModuleData w f"
    using initModuleData_idem [of w f "fst (initModuleData w f)" "snd (initModuleData w f)"] by simp
  have E: "\<not> GoFile_initModuleDataOnce f
        \<longrightarrow> GoFile_log (snd (initModuleData w f)) = GoFile_log f @ [CallExtractModuledata]"
    using initModuleData_fresh [of f w "fst (initModuleData w f)" "snd (initModuleData w f)"] by simp
  have F: "GoFile_initModuleDataOnce f \<longrightarrow> snd (initModuleData w f) = f"
    by (simp add: initModuleData_done)
  have G: "PCLNTab w f = (Inr tab, f2)
        \<longrightarrow> PCLNTab w f2 = (Inr tab, f2\<lparr>GoFile_log := GoFile_log f2 @ [CallNewTable]\<rparr>)"
    using PCLNTab_again [of w f tab f2] by blast
  have H: "\<not> symtab_done (peFile_symtab p)
        \<longrightarrow> peFile_log (snd (initSymTab p)) = peFile_log p @ [CallNormalizeSymbols]"
    using initSymTab_first_log by blast
  have I: "symtab_done (peFile_symtab p) \<longrightarrow> initSymTab p = (symtab_err (peFile_symtab p), p)"
    using initSymTab_done by blast
  have J: "pcln_result (peFile_pcln p) = None
        \<longrightarrow> fst (peFile_getPCLNTABData sst p) = getPCLNTABDataImpl sst p
          \<and> peFile_log (snd (peFile_getPCLNTABData sst p)) = peFile_log p @ [CallGetPCLNTABDataImpl]"
    using peFile_getPCLNTABData_first by blast
  have K: "pcln_result (peFile_pcln p) = Some pr \<longrightarrow> peFile_getPCLNTABData sst p = (pr, p)"
    using peFile_getPCLNTABData_done by blast
  show ?thesis
    apply (intro conjI)
    subgoal by (rule A)
    subgoal using B by blast
    subgoal by (rule C)
    subgoal by (rule D)
    subgoal by (rule initModuleData_times)
    subgoal by (rule E)
    subgoal by (rule F)
    subgoal by (rule G)
    subgoal by (rule initSymTab_idem)
    subgoal by (rule initSymTab_times)
    subgoal by (rule H)
    subgoal by (rule I)
    subgoal by (rule peFile_getPCLNTABData_idem)
    subgoal by (rule peFile_getPCLNTABData_times)
    subgoal by (rule J)
    subgoal by (rule K)
    done
qed


theorem one_shot_gates_witness:
  "(\<exists>g. GetPackages_times ex_world 3 ex_gofile_rdata = Return (replicate 3 ([ex_main], None), g)
        \<and> GoFile_log g = [CallExtractModuledata, CallNewTable, CallEnumPackages])
   \<and> (\<exists>g. GetPackages_times ex_world_badtab 3 ex_gofile_rdata
              = Return (replicate 3 ([], Some (Errorf ''bad table'')), g)
        \<and> GoFile_log g = [CallExtractModuledata, CallNewTable])
   \<and> (\<exists>g. GetPackages_times ex_world 3 ex_gofile = Return (replicate 3 ([], Some ErrNoPCLNTab), g)
        \<and> GoFile_log g = [CallExtractModuledata])
   \<and> (\<exists>g. GetPackages_times ex_world_nomd 3 ex_gofile_rdata
              = Return (replicate 3 ([], Some (Errorf ''moduledata not found'')), g)
        \<and> GoFile_log g = [CallExtractModuledata])
   \<and> GoFile_log (snd (initModuleData ex_world ex_gofile_rdata)) = [CallExtractModuledata]
   \<and> GoFile_log (snd (initModuleData ex_world (snd (initModuleData ex_world ex_gofile_rdata))))
       = [CallExtractModuledata]
   \<and> GoFile_log (snd (PCLNTab ex_world (snd (PCLNTab ex_world ex_gofile_rdata))))
       = [CallExtractModuledata, CallNewTable, CallNewTable]
   \<and> fst (initSymTab ex_pe_badsym) = Some (Errorf ''invalid section number in symbol table'')
   \<and> initSymTab (snd (initSymTab ex_pe_badsym))
       = (Some (Errorf ''invalid section number in symbol table''), snd (initSymTab ex_pe_badsym))
   \<and> peFile_log (snd (initSymTab (snd (initSymTab (snd (initSymTab ex_pe_badsym))))))
       = [CallNormalizeSymbols]
   \<and> fst (peFile_getPCLNTABData ex_searchSectionForTab ex_pe_rdata) = Inr (0x402200, ex_header)
   \<and> peFile_getPCLNTABData ex_searchSectionForTab
        (snd (peFile_getPCLNTABData ex_searchSectionForTab ex_pe_rdata))
       = (Inr (0x402200, ex_header), snd (peFile_getPCLNTABData ex_searchSectionForTab ex_pe_rdata))
   \<and> peFile_log (snd (peFile_getPCLNTABData ex_searchSectionForTab
        (snd (peFile_getPCLNTABData ex_searchSectionForTab
          (snd (peFile_getPCLNTABData ex_searchSectionForTab ex_pe_rdata))))))
       = [CallGetPCLNTABDataImpl]"
proof -
  let ?st = "\<lambda>w f. case GetPackages w f of Return (r, f1) \<Rightarrow> f1 | Panic v \<Rightarrow> f"
  let ?f2 = "snd (PCLNTab ex_world ex_gofile_rdata)"
  let ?p1 = "snd (initSymTab ex_pe_badsym)"
  let ?q1 = "snd (peFile_getPCLNTABData ex_searchSectionForTab ex_pe_rdata)"
  let ?e = "Errorf ''invalid section number in symbol table''"
  have fr1: "fresh ex_gofile_rdata" by (simp add: fresh_def ex_gofile_rdata_def newGoFile_def)
  have fr2: "fresh ex_gofile" by (simp add: fresh_def ex_gofile_def newGoFile_def)
  have three: "(3::nat) = Suc 2" by simp
  have r1: "(case GetPackages ex_world ex_gofile_rdata of
               Return (r, f1) \<Rightarrow> r = ([ex_main], None) | Panic v \<Rightarrow> False)"
    by code_simp
  note g1 = GetPackages_state [OF r1]
  have m1: "fst (initModuleData ex_world ex_gofile_rdata) = None" by code_simp
  have t1: "gosym_NewTable ex_world ex_header
              (moduledata_TextAddr (GoFile_moduledata (snd (initModuleData ex_world ex_gofile_rdata))))
            = Inr ex_table"
    by (simp add: ex_world_def)
  note T1 = one_shot_gates [where w = ex_world and f = ex_gofile_rdata and n = 2
      and ?r0.0 = "([ex_main], None)" and g = "?st ex_world ex_gofile_rdata"
      and err = ErrNoPCLNTab and a = "0x402200" and data = ex_header and ?tab0.0 = ex_table
      and tab = ex_table and ?f2.0 = ?f2 and p = ex_pe_badsym and sst = ex_searchSectionForTab
      and pr = "Inl ErrNoPCLNTab"]
  have A: "\<exists>g. GetPackages_times ex_world 3 ex_gofile_rdata = Return (replicate 3 ([ex_main], None), g)
        \<and> GoFile_log g = [CallExtractModuledata, CallNewTable, CallEnumPackages]"
    using T1 fr1 g1 m1 t1 ex_gofile_rdata_pclntab unfolding three by auto
  have r2: "(case GetPackages ex_world_badtab ex_gofile_rdata of
               Return (r, f1) \<Rightarrow> r = ([], Some (Errorf ''bad table'')) | Panic v \<Rightarrow> False)"
    by code_simp
  note g2 = GetPackages_state [OF r2]
  have m2: "fst (initModuleData ex_world_badtab ex_gofile_rdata) = None" by code_simp
  have t2: "gosym_NewTable ex_world_badtab ex_header
              (moduledata_TextAddr (GoFile_moduledata (snd (initModuleData ex_world_badtab ex_gofile_rdata))))
            = Inl (Errorf ''bad table'')"
    by (simp add: ex_world_badtab_def)
  note T2 = one_shot_gates [where w = ex_world_badtab and f = ex_gofile_rdata and n = 2
      and ?r0.0 = "([], Some (Errorf ''bad table''))" and g = "?st ex_world_badtab ex_gofile_rdata"
      and err = "Errorf ''bad table''" and a = "0x402200" and data = ex_header and ?tab0.0 = ex_table
      and tab = ex_table and ?f2.0 = ?f2 and p = ?p1 and sst = ex_searchSectionForTab
      and pr = "Inl ErrNoPCLNTab"]
  have B: "\<exists>g. GetPackages_times ex_world_badtab 3 ex_gofile_rdata
              = Return (replicate 3 ([], Some (Errorf ''bad table'')), g)
        \<and> GoFile_log g = [CallExtractModuledata, CallNewTable]"
    using T2 fr1 g2 m2 t2 ex_gofile_rdata_pclntab unfolding three by auto
  have r3: "(case GetPackages ex_world ex_gofile of
               Return (r, f1) \<Rightarrow> r = ([], Some ErrNoPCLNTab) | Panic v \<Rightarrow> False)"
    by code_simp
  note g3 = GetPackages_state [OF r3]
  have m3: "fst (initModuleData ex_world ex_gofile) = None" by code_simp
  note T3 = one_shot_gates [where w = ex_world and f = ex_gofile and n = 2
      and ?r0.0 = "([], Some ErrNoPCLNTab)" and g = "?st ex_world ex_gofile"
      and err = ErrNoPCLNTab and a = "0x402200" and data = ex_header and ?tab0.0 = ex_table
      and tab = ex_table and ?f2.0 = ?f2 and p = ex_pe_rdata and sst = ex_searchSectionForTab
      and pr = "Inl ErrNoPCLNTab"]
  have C: "\<exists>g. GetPackages_times ex_world 3 ex_gofile = Return (replicate 3 ([], Some ErrNoPCLNTab), g)
        \<and> GoFile_log g = [CallExtractModuledata]"
    using T3 fr2 g3 m3 ex_gofile_pclntab unfolding three by auto
  have r4: "(case GetPackages ex_world_nomd ex_gofile_rdata of
               Return (r, f1) \<Rightarrow> r = ([], Some (Errorf ''moduledata not found'')) | Panic v \<Rightarrow> False)"
    by code_simp
  note g4 = GetPackages_state [OF r4]
  have m4: "fst (initModuleData ex_world_nomd ex_gofile_rdata) = Some (Errorf ''moduledata not found'')"
    by code_simp
  note T4 = one_shot_gates [where w = ex_world_nomd and f = ex_gofile_rdata and n = 2
      and ?r0.0 = "([], Some (Errorf ''moduledata not found''))" and g = "?st ex_world_nomd ex_gofile_rdata"
      and err = "Errorf ''moduledata not found''" and a = "0x402200" and data = ex_header
      and ?tab0.0 = ex_table
      and tab = ex_table and ?f2.0 = ?f2 and p = ?q1 and sst = ex_searchSectionForTab
      and pr = "Inr (0x402200, ex_header)"]
  have D: "\<exists>g. GetPackages_times ex_world_nomd 3 ex_gofile_rdata
              = Return (replicate 3 ([], Some (Errorf ''moduledata not found'')), g)
        \<and> GoFile_log g = [CallExtractModuledata]"
    using T4 fr1 g4 m4 unfolding three by auto
  let ?m1 = "snd (initModuleData ex_world ex_gofile_rdata)"
  have d0: "\<not> GoFile_initModuleDataOnce ex_gofile_rdata" "GoFile_log ex_gofile_rdata = []"
    using fr1 by (simp_all add: fresh_def)
  have M1: "GoFile_log ?m1 = [CallExtractModuledata]"
    using T1 d0 by simp
  have d1: "GoFile_initModuleDataOnce ?m1"
    by (simp add: initModuleData_def Let_def)
  note T5 = one_shot_gates [where w = ex_world and f = ?m1 and n = 2
      and ?r0.0 = "([ex_main], None)" and g = ?m1
      and err = ErrNoPCLNTab and a = "0x402200" and data = ex_header and ?tab0.0 = ex_table
      and tab = ex_table and ?f2.0 = ?f2 and p = ex_pe and sst = ex_searchSectionForTab
      and pr = "Inl ErrNoPCLNTab"]
  have M2: "GoFile_log (snd (initModuleData ex_world ?m1)) = [CallExtractModuledata]"
    using T5 d1 M1 by simp
  have p: "fst (PCLNTab ex_world ex_gofile_rdata) = Inr ex_table"
    using m1 t1 ex_gofile_rdata_pclntab
    by (simp add: PCLNTab_def split_def initModuleData_fh split: option.splits)
  then have p': "PCLNTab ex_world ex_gofile_rdata = (Inr ex_table, ?f2)"
    by (simp add: prod_eq_iff)
  have l1: "GoFile_log ?f2 = [CallExtractModuledata, CallNewTable]"
    by code_simp
  have E: "GoFile_log (snd (PCLNTab ex_world ?f2)) = [CallExtractModuledata, CallNewTable, CallNewTable]"
    using T1 p' l1 by simp
  have s0: "\<not> symtab_done (peFile_symtab ex_pe_badsym)" "peFile_log ex_pe_badsym = []"
    by (simp_all add: ex_pe_badsym_def ex_pe_def newSymbolTableOnce_def)
  have s1: "fst (initSymTab ex_pe_badsym) = Some ?e"
    by (simp add: initSymTab_def initSymTab_body_def Let_def ex_pe_badsym_def ex_pe_def
          newSymbolTableOnce_def NUndef_def NAbs_def NDebug_def)
  have s2: "peFile_log ?p1 = [CallNormalizeSymbols]"
    using T1 s0 by simp
  have s3: "symtab_done (peFile_symtab ?p1)"
    by (simp add: initSymTab_def Let_def)
  have s4: "symtab_err (peFile_symtab ?p1) = Some ?e"
    using s1 by (simp add: initSymTab_def Let_def split: if_splits)
  have F1: "initSymTab ?p1 = (Some ?e, ?p1)"
    using T2 s3 s4 by simp
  have F2: "peFile_log (snd (initSymTab (snd (initSymTab ?p1)))) = [CallNormalizeSymbols]"
    using F1 s2 by simp
  have q0: "pcln_result (peFile_pcln ex_pe_rdata) = None" "peFile_log ex_pe_rdata = []"
    by (simp_all add: ex_pe_rdata_def ex_pe_def newPclnTabOnce_def)
  have q1: "getPCLNTABDataImpl ex_searchSectionForTab ex_pe_rdata = Inr (0x402200, ex_header)"
    by (simp add: getPCLNTABDataImpl_def searchForPCLNTab_def ex_pe_files
          ex_searchSectionForTab_def scanForTab_skip_zeros scanForTab_ex_header)
  have q2: "fst (peFile_getPCLNTABData ex_searchSectionForTab ex_pe_rdata) = Inr (0x402200, ex_header)"
       and q3: "peFile_log ?q1 = [CallGetPCLNTABDataImpl]"
    using T3 q0 q1 by simp_all
  have q4: "pcln_result (peFile_pcln ?q1) = Some (Inr (0x402200, ex_header))"
    using q0 q1
    by (simp add: peFile_getPCLNTABData_def pclntabOnce_load_def getPCLNTABDataImpl_call_def)
  have G1: "peFile_getPCLNTABData ex_searchSectionForTab ?q1 = (Inr (0x402200, ex_header), ?q1)"
    using T4 q4 by simp
  have G2: "peFile_log (snd (peFile_getPCLNTABData ex_searchSectionForTab
              (snd (peFile_getPCLNTABData ex_searchSectionForTab ?q1)))) = [CallGetPCLNTABDataImpl]"
    using G1 q3 by simp
  show ?thesis
    apply (intro conjI)
    subgoal by (rule A)
    subgoal by (rule B)
    subgoal by (rule C)
    subgoal by (rule D)
    subgoal by (rule M1)
    subgoal by (rule M2)
    subgoal by (rule E)
    subgoal by (rule s1)
    subgoal by (rule F1)
    subgoal by (rule F2)
    subgoal by (rule q2)
    subgoal by (rule G1)
    subgoal by (rule G2)
    done
qed

subsection \<open>The cached line table\<close>

lemma Open_finish_pclntab: "GoFile_pclntab (Open_finish w h) = None"
  by (simp add: Open_finish_def newGoFile_def Let_def split: sum.splits)

lemma Open_pclntab: "Open w fp = Return (Inr f) \<Longrightarrow> GoFile_pclntab f = None"
  by (auto simp: Open_def Open_handler_def Open_finish_pclntab split: sum.splits option.splits prod.splits if_splits outcome.splits)

lemma SourceInfo_nil: "GoFile_pclntab f = None \<Longrightarrow> SourceInfo w f fn = Panic ''invalid memory address or nil pointer dereference''"
  by (simp add: SourceInfo_def PCToLine_def)

lemma SourceInfo_set: "GoFile_pclntab f = Some tab \<Longrightarrow> \<exists>r. SourceInfo w f fn = Return r"
  by (simp add: SourceInfo_def PCToLine_def split: prod.splits)

lemma sourceStep_nil: "GoFile_pclntab f = None \<Longrightarrow> sourceStep w f tmp a b c = Panic ''invalid memory address or nil pointer dereference''"
  by (simp add: sourceStep_def PCToLine_def)

lemma sourceStep_set: "GoFile_pclntab f = Some tab \<Longrightarrow> \<exists>r. sourceStep w f tmp a b c = Return r"
  by (simp add: sourceStep_def PCToLine_def Let_def split: prod.splits)

lemma functionsLoop_set: "GoFile_pclntab f = Some tab \<Longrightarrow> \<exists>r. functionsLoop w f tmp fns = Return r"
proof (induction fns arbitrary: tmp)
  case Nil
  then show ?case by simp
next
  case (Cons fn fns)
  from sourceStep_set [OF Cons.prems] obtain r
    where "sourceStep w f tmp (Function_Offset fn) (Function_End fn) (Function_Name fn) = Return r"
    by blast
  with Cons.IH [OF Cons.prems, of r] show ?case by simp
qed

lemma methodsLoop_set: "GoFile_pclntab f = Some tab \<Longrightarrow> \<exists>r. methodsLoop w f tmp ms = Return r"
proof (induction ms arbitrary: tmp)
  case Nil
  then show ?case by simp
next
  case (Cons m ms)
  from sourceStep_set [OF Cons.prems] obtain r
    where "sourceStep w f tmp (Function_Offset (Method_Function m)) (Function_End (Method_Function m))
             (Method_Receiver m @ Function_Name (Method_Function m)) = Return r"
    by blast
  with Cons.IH [OF Cons.prems, of r] show ?case by simp
qed

lemma GetSourceFiles_set: "GoFile_pclntab f = Some tab \<Longrightarrow> \<exists>r. GetSourceFiles w f p = Return r"
proof -
  assume t: "GoFile_pclntab f = Some tab"
  from functionsLoop_set [OF t] obtain r1 where r1: "functionsLoop w f [] (Package_Functions p) = Return r1"
    by blast
  from methodsLoop_set [OF t] obtain r2 where "methodsLoop w f r1 (Package_Methods p) = Return r2"
    by blast
  with r1 show ?thesis by (simp add: GetSourceFiles_def)
qed

lemma concat_empties: "concat (map (\<lambda>k. []) xs) = []"
  by (induction xs) simp_all

lemma GetSourceFiles_nil:
  assumes "GoFile_pclntab f = None"
  shows "(Package_Functions p \<noteq> [] \<or> Package_Methods p \<noteq> []
            \<longrightarrow> GetSourceFiles w f p = Panic ''invalid memory address or nil pointer dereference'')
       \<and> (Package_Functions p = [] \<and> Package_Methods p = [] \<longrightarrow> GetSourceFiles w f p = Return [])"
proof (cases "Package_Functions p")
  case Nil
  show ?thesis
  proof (cases "Package_Methods p")
    case Nil
    with \<open>Package_Functions p = []\<close> show ?thesis
      by (simp add: GetSourceFiles_def concat_empties)
  next
    case (Cons m ms)
    with \<open>Package_Functions p = []\<close> show ?thesis
      by (simp add: GetSourceFiles_def sourceStep_nil [OF assms])
  qed
next
  case (Cons fn fns)
  then show ?thesis by (simp add: GetSourceFiles_def sourceStep_nil [OF assms])
qed

lemma classifyLoop_pclntab:
  "GoFile_pclntab (foldl (classifyStep w c packages) f ks) = GoFile_pclntab f"
  by (induction ks arbitrary: f) (simp_all add: classifyStep_def Let_def split: option.splits PackageClass.splits)

lemma enumPackages_tab_pclntab: "GoFile_pclntab (snd (enumPackages_tab w tab f)) = GoFile_pclntab f"
  by (simp add: enumPackages_tab_def Let_def classifyLoop_pclntab split: option.splits sum.splits)

lemma PCLNTab_pclntab: "GoFile_pclntab (snd (PCLNTab w f)) = GoFile_pclntab f"
  by (simp add: PCLNTab_def initModuleData_def initModuleData_body_def ensureCompilerVersion_def
        tryExtractCompilerVersion_def Let_def split: option.splits sum.splits prod.splits)

lemma Moduledata_pclntab: "GoFile_pclntab (snd (Moduledata w f)) = GoFile_pclntab f"
  by (simp add: Moduledata_def initModuleData_def initModuleData_body_def ensureCompilerVersion_def
        tryExtractCompilerVersion_def Let_def split: option.splits sum.splits prod.splits)

lemma initPackages_pclntab:
  assumes "\<not> GoFile_initPackagesOnce f" and "initPackages w f = Return (e, f1)"
  shows "GoFile_pclntab f1 = (case fst (PCLNTab w f) of Inl err \<Rightarrow> GoFile_pclntab f | Inr tab \<Rightarrow> Some tab)"
proof -
  obtain t f' where p: "PCLNTab w f = (t, f')" by (cases "PCLNTab w f")
  have fr: "GoFile_pclntab f' = GoFile_pclntab f" using PCLNTab_pclntab [of w f] p by simp
  show ?thesis
  proof (cases t)
    case (Inl err)
    then show ?thesis using assms p fr by (auto simp: initPackages_def initPackages_body_def)
  next
    case (Inr tab)
    obtain e2 f2 where en: "enumPackages_tab w tab (f'\<lparr>GoFile_pclntab := Some tab\<rparr>) = (e2, f2)"
      by (cases "enumPackages_tab w tab (f'\<lparr>GoFile_pclntab := Some tab\<rparr>)")
    have "GoFile_pclntab f2 = Some tab"
      using enumPackages_tab_pclntab [of w tab "f'\<lparr>GoFile_pclntab := Some tab\<rparr>"] en by simp
    then show ?thesis using assms p Inr en
      by (auto simp: initPackages_def initPackages_body_def enumPackages_def)
  qed
qed

lemma initPackages_success_pclntab:
  assumes "\<not> GoFile_initPackagesOnce f" and "initPackages w f = Return (None, f1)"
  shows "\<exists>tab. GoFile_pclntab f1 = Some tab"
proof -
  obtain t f' where p: "PCLNTab w f = (t, f')" by (cases "PCLNTab w f")
  have "\<exists>tab. t = Inr tab"
    using assms p by (cases t) (auto simp: initPackages_def initPackages_body_def)
  then show ?thesis using initPackages_pclntab [OF assms] p by auto
qed


lemma initPackages_nomain:
  "initPackages ex_world_nomain ex_gofile_rdata = Return (Some (Errorf ''no main package found''), ex_gofile_nomain)"
proof -
  obtain e f1 where r: "initPackages ex_world_nomain ex_gofile_rdata = Return (e, f1)"
    using initPackages_returns by blast
  have "(case initPackages ex_world_nomain ex_gofile_rdata of
           Return (e, f1) \<Rightarrow> e = Some (Errorf ''no main package found'') | Panic v \<Rightarrow> False)"
    by code_simp
  then show ?thesis using r by (simp add: ex_gofile_nomain_def)
qed

lemma initPackages_ready:
  "initPackages ex_world ex_gofile_rdata = Return (None, ex_gofile_ready)"
proof -
  obtain e f1 where r: "initPackages ex_world ex_gofile_rdata = Return (e, f1)"
    using initPackages_returns by blast
  have "(case initPackages ex_world ex_gofile_rdata of
           Return (e, f1) \<Rightarrow> e = None | Panic v \<Rightarrow> False)"
    by code_simp
  then show ?thesis using r by (simp add: ex_gofile_ready_def)
qed

text \<open>
  C10, as the specification states it, fails in two places. A call of \<open>initPackages\<close> that fails
  with "no main package found" has stored the table before, and \<open>SourceInfo\<close> answers
  on the handle it leaves. And on a new handle, whose table is nil, \<open>GetSourceFiles\<close> of
  a package without functions and methods returns the empty list and dereferences
  nothing.
\<close>

theorem source_queries_counterexample:
  "initPackages ex_world_nomain ex_gofile_rdata
     = Return (Some (Errorf ''no main package found''), ex_gofile_nomain)
   \<and> SourceInfo ex_world_nomain ex_gofile_nomain ex_println
       = Return (''/usr/local/go/src/fmt/print.go'', 10, 20)
   \<and> GoFile_pclntab ex_gofile_rdata = None
   \<and> GetSourceFiles ex_world ex_gofile_rdata ex_empty = Return []"
proof -
  have a: "SourceInfo ex_world_nomain ex_gofile_nomain ex_println
       = Return (''/usr/local/go/src/fmt/print.go'', 10, 20)"
    by code_simp
  have b: "GoFile_pclntab ex_gofile_rdata = None"
    by (simp add: ex_gofile_rdata_def newGoFile_def)
  have c: "GetSourceFiles ex_world ex_gofile_rdata ex_empty = Return []"
    using GetSourceFiles_nil [OF b, of ex_empty ex_world] by (simp add: ex_empty_def)
  show ?thesis using initPackages_nomain a b c by simp
qed

text \<open>
  C10, amended: \<open>Open\<close> leaves the cached table nil; \<open>PCLNTab\<close> and \<open>Moduledata\<close> do
  not set it. The first \<open>initPackages\<close> sets it exactly when its call of \<open>PCLNTab\<close>
  delivers a table, be the enumeration that follows a success or not; after a call
  without error it is set. While it is nil, \<open>SourceInfo\<close> panics on the nil pointer for
  every function, \<open>GetSourceFiles\<close> panics for every package with a function or a
  method and returns the empty list for a package with none. Once it is set both return.
\<close>

theorem source_queries_need_table:
  "(Open w fp = Return (Inr f0) \<longrightarrow> GoFile_pclntab f0 = None)
   \<and> GoFile_pclntab (snd (PCLNTab w f)) = GoFile_pclntab f
   \<and> GoFile_pclntab (snd (Moduledata w f)) = GoFile_pclntab f
   \<and> (\<not> GoFile_initPackagesOnce f \<and> initPackages w f = Return (e, f1)
        \<longrightarrow> GoFile_pclntab f1
            = (case fst (PCLNTab w f) of Inl err \<Rightarrow> GoFile_pclntab f | Inr tab \<Rightarrow> Some tab))
   \<and> (\<not> GoFile_initPackagesOnce f \<and> initPackages w f = Return (None, f1)
        \<longrightarrow> (\<exists>tab. GoFile_pclntab f1 = Some tab))
   \<and> (GoFile_pclntab f = None
        \<longrightarrow> SourceInfo w f fn = Panic ''invalid memory address or nil pointer dereference''
            \<and> (Package_Functions p \<noteq> [] \<or> Package_Methods p \<noteq> []
                 \<longrightarrow> GetSourceFiles w f p = Panic ''invalid memory address or nil pointer dereference'')
            \<and> (Package_Functions p = [] \<and> Package_Methods p = [] \<longrightarrow> GetSourceFiles w f p = Return []))
   \<and> (GoFile_pclntab f = Some tab
        \<longrightarrow> (\<exists>r. SourceInfo w f fn = Return r) \<and> (\<exists>r. GetSourceFiles w f p = Return r))"
  using Open_pclntab [of w fp f0] PCLNTab_pclntab [of w f] Moduledata_pclntab [of w f]
    initPackages_pclntab [of f w e f1] initPackages_success_pclntab [of f w f1]
    SourceInfo_nil [of f w fn] GetSourceFiles_nil [of f p w]
    SourceInfo_set [of f tab w fn] GetSourceFiles_set [of f tab w p]
  by blast

theorem source_queries_need_table_witness:
  "Open ex_world ''app.exe'' = Return (Inr ex_gofile_rdata)
   \<and> SourceInfo ex_world ex_gofile_rdata ex_println
       = Panic ''invalid memory address or nil pointer dereference''
   \<and> GetSourceFiles ex_world ex_gofile_rdata ex_main
       = Panic ''invalid memory address or nil pointer dereference''
   \<and> GetSourceFiles ex_world ex_gofile_rdata ex_empty = Return []
   \<and> initPackages ex_world ex_gofile_rdata = Return (None, ex_gofile_ready)
   \<and> (\<exists>r. SourceInfo ex_world ex_gofile_ready ex_println = Return r)
   \<and> (\<exists>r. GetSourceFiles ex_world ex_gofile_ready ex_main = Return r)"
proof -
  have opn: "Open ex_world ''app.exe'' = Return (Inr ex_gofile_rdata)"
    by (simp add: Open_def Open_handler_def Open_PE_def Open_finish_def openPE_def openPE_body_def
          ex_world_def
          ex_osFile_def File_Read_def maxMagicBufLen_def fileMagicMatch_def elfMagic_def peMagic_def
          ex_gofile_rdata_def ex_pe_rdata_def ex_pe_def newGoFile_def peHandler_def
          peFile_getBuildID_def peFile_getCodeSection_def File_Section_def
          ex_parseBuildIDFromRaw_def openPE_goroutine_def recover_def Let_def)
  have fresh: "\<not> GoFile_initPackagesOnce ex_gofile_rdata"
    by (simp add: ex_gofile_rdata_def newGoFile_def)
  have nonempty: "Package_Functions ex_main \<noteq> [] \<or> Package_Methods ex_main \<noteq> []"
    by (simp add: ex_main_def)
  have empty: "Package_Functions ex_empty = [] \<and> Package_Methods ex_empty = []"
    by (simp add: ex_empty_def)
  note T1 = source_queries_need_table [of ex_world "''app.exe''" ex_gofile_rdata ex_gofile_rdata None
              ex_gofile_ready ex_println ex_main ex_table]
  note T2 = source_queries_need_table [of ex_world "''app.exe''" ex_gofile_rdata ex_gofile_rdata None
              ex_gofile_ready ex_println ex_empty ex_table]
  have nil: "GoFile_pclntab ex_gofile_rdata = None"
    using T1 opn by blast
  from T1 fresh initPackages_ready obtain tab where tab: "GoFile_pclntab ex_gofile_ready = Some tab"
    by blast
  note T3 = source_queries_need_table [of ex_world "''app.exe''" ex_gofile_rdata ex_gofile_ready None
              ex_gofile_ready ex_println ex_main tab]
  have A: "SourceInfo ex_world ex_gofile_rdata ex_println
             = Panic ''invalid memory address or nil pointer dereference''"
    using T1 nil by blast
  have B: "GetSourceFiles ex_world ex_gofile_rdata ex_main
             = Panic ''invalid memory address or nil pointer dereference''"
    using T1 nil nonempty by blast
  have C: "GetSourceFiles ex_world ex_gofile_rdata ex_empty = Return []"
    using T2 nil empty by blast
  have D: "(\<exists>r. SourceInfo ex_world ex_gofile_ready ex_println = Return r)
         \<and> (\<exists>r. GetSourceFiles ex_world ex_gofile_ready ex_main = Return r)"
    using T3 tab by blast
  show ?thesis using opn A B C D initPackages_ready by blast
qed

end
